theory Spec2Isabelle
  imports Main "HOL-Library.Word"
begin

section \<open>B3 values: the data model of B3Value.cpp\<close>

text \<open>
  The theory embeds \<^verbatim>\<open>JavaScriptCore/b3/B3Value.cpp\<close>. The headers it includes
  (B3Opcode.h, B3Kind.h, B3Type.h, B3Effects.h, B3HeapRange.h, B3ValueKey.h, B3BasicBlock.h,
  B3Value.h and the headers of the Value subclasses) are not among the sources. Their
  types are declared here with the members that B3Value.cpp reads and writes.

  Two macros end the program: \<^verbatim>\<open>RELEASE_ASSERT\<close> in every build, \<^verbatim>\<open>ASSERT\<close> in debug
  builds only. The embedding is of the release configuration: a failing
  \<^verbatim>\<open>RELEASE_ASSERT\<close> is the result \<open>Inl ReleaseAssert\<close>, an \<^verbatim>\<open>ASSERT\<close> is no code.
  A read through a pointer that names no object and a read past the end of a child
  array are undefined in C++; the embedding gives them the results \<open>Inl NullDeref\<close> and
  \<open>Inl OutOfBounds\<close>, and a downcast to the wrong Value subclass is \<open>Inl BadCast\<close>.
\<close>

datatype error = ReleaseAssert | BadKind | NullDeref | OutOfBounds | BadCast

text \<open>
  The opcodes are the case labels of the switch in \<^verbatim>\<open>Value::effects\<close>, which has no
  default label and so names every opcode.
\<close>

datatype (plugins only: size) Opcode =
    Nop | Identity | Opaque
  | Const32 | Const64 | ConstDouble | ConstFloat
  | BottomTuple | SlotBase | ArgumentReg | FramePointer
  | Add | Sub | Mul | Neg
  | BitAnd | BitOr | BitXor | Shl | SShr | ZShr | RotR | RotL | Clz
  | Abs | Ceil | Floor | Sqrt
  | BitwiseCast | SExt8 | SExt16 | SExt32 | ZExt32 | Trunc
  | IToD | IToF | FloatToDouble | DoubleToFloat
  | Equal | NotEqual | LessThan | GreaterThan | LessEqual | GreaterEqual
  | Above | Below | AboveEqual | BelowEqual | EqualOrUnordered
  | Select | Depend | Extract
  | Div | UDiv | Mod | UMod
  | Load8Z | Load8S | Load16Z | Load16S | Load
  | Store8 | Store16 | Store
  | AtomicWeakCAS | AtomicStrongCAS
  | AtomicXchgAdd | AtomicXchgAnd | AtomicXchgOr | AtomicXchgSub | AtomicXchgXor | AtomicXchg
  | WasmAddress | Fence | CCall | Patchpoint
  | CheckAdd | CheckSub | CheckMul | Check
  | WasmBoundsCheck
  | Upsilon | Set | Phi | Get
  | Jump | Branch | Switch | Return | Oops | EntrySwitch

text \<open>
  Modelled from the spec: B3Type.h is not among the sources. The spec gives the closed
  set of value types; \<^verbatim>\<open>Type::kind()\<close> of the source is the identity on it.
\<close>

datatype Type = Void | Int32 | Int64 | Float | Double | Tuple

text \<open>
  Modelled from the spec: B3Kind.h is not among the sources. A kind is an opcode tag
  with flag bits; \<^verbatim>\<open>traps\<close> is the bit that \<^verbatim>\<open>Value::effects\<close> reads. An opcode
  converts to the kind with no bit set.
\<close>

record Kind =
  k_opcode :: Opcode
  k_isChill :: bool
  k_traps :: bool

definition Kind_of :: "Opcode \<Rightarrow> Kind" where
  "Kind_of opc = \<lparr>k_opcode = opc, k_isChill = False, k_traps = False\<rparr>"

text \<open>
  Modelled from the spec: B3HeapRange.h is not among the sources. A range of abstract
  heap addresses is the half-open interval from \<open>m_begin\<close> to \<open>m_end\<close> of unsigned
  32-bit numbers; the default range is empty, \<^verbatim>\<open>HeapRange::top()\<close> is the entire
  address space, and \<^verbatim>\<open>operator|\<close> is the union of the spec, as the least interval
  that holds both.
\<close>

record HeapRange =
  m_begin :: "32 word"
  m_end :: "32 word"

definition HeapRange_default :: HeapRange where
  "HeapRange_default = \<lparr>m_begin = 0, m_end = 0\<rparr>"

definition HeapRange_top :: HeapRange where
  "HeapRange_top = \<lparr>m_begin = 0, m_end = - 1\<rparr>"

definition HeapRange_nonempty :: "HeapRange \<Rightarrow> bool" where
  "HeapRange_nonempty r = (m_begin r \<noteq> m_end r)"

definition HeapRange_or :: "HeapRange \<Rightarrow> HeapRange \<Rightarrow> HeapRange" where
  "HeapRange_or a b =
     (if \<not> HeapRange_nonempty a then b
      else if \<not> HeapRange_nonempty b then a
      else \<lparr>m_begin = min (m_begin a) (m_begin b), m_end = max (m_end a) (m_end b)\<rparr>)"

text \<open>
  Modelled from the spec: B3Effects.h is not among the sources. The fields are those of
  the spec's section 4.2; a default-constructed descriptor has empty ranges and every
  flag false.
\<close>

record Effects =
  terminal :: bool
  exitsSideways :: bool
  controlDependent :: bool
  writesLocalState :: bool
  readsLocalState :: bool
  readsPinned :: bool
  fence :: bool
  writes :: HeapRange
  reads :: HeapRange

definition Effects_default :: Effects where
  "Effects_default =
     \<lparr>terminal = False, exitsSideways = False, controlDependent = False,
      writesLocalState = False, readsLocalState = False, readsPinned = False,
      fence = False, writes = HeapRange_default, reads = HeapRange_default\<rparr>"

text \<open>
  The Value subclasses, as the payload a node carries besides the members of Value.
  Each constructor holds what the accessors used in B3Value.cpp return: for a
  MemoryValue and an AtomicValue \<^verbatim>\<open>range()\<close>, \<^verbatim>\<open>fenceRange()\<close> and \<^verbatim>\<open>hasFence()\<close>, for
  a FenceValue \<^verbatim>\<open>read\<close> and \<^verbatim>\<open>write\<close>, for a CCallValue and a PatchpointValue
  \<^verbatim>\<open>effects\<close>, for a WasmBoundsCheckValue \<^verbatim>\<open>boundsType()\<close>, for the constants their
  bits, for an ArgumentRegValue and a SlotBaseValue the index of the register and of the
  stack slot.
\<close>

datatype BoundsType = Pinned | Maximum

datatype Payload =
    NoPayload
  | MemoryValue HeapRange HeapRange bool
  | AtomicValue HeapRange HeapRange bool
  | FenceValue HeapRange HeapRange
  | CCallValue Effects
  | PatchpointValue Effects
  | WasmBoundsCheckValue BoundsType
  | Const32Value "32 word"
  | Const64Value "64 word"
  | ConstDoubleValue "64 word"
  | ConstFloatValue "32 word"
  | ArgumentRegValue "32 word"
  | SlotBaseValue "32 word"

text \<open>
  A \<^verbatim>\<open>Value*\<close> and a \<^verbatim>\<open>BasicBlock*\<close> are addresses into the procedure that owns all
  nodes and blocks; an address at which the procedure holds nothing stands for a null
  or dangling pointer. The \<open>owner\<close> member is \<open>None\<close> when it is \<^verbatim>\<open>nullptr\<close>.
\<close>

type_synonym addr = nat
type_synonym baddr = nat
type_synonym Origin = nat

record Value =
  m_index :: "32 word"
  m_kind :: Kind
  m_type :: Type
  m_origin :: Origin
  owner :: "baddr option"
  children :: "addr list"
  payload :: Payload

definition opcode :: "Value \<Rightarrow> Opcode" where
  "opcode v = k_opcode (m_kind v)"

definition traps :: "Value \<Rightarrow> bool" where
  "traps v = k_traps (m_kind v)"

section \<open>Value::effects\<close>

text \<open>
  \<^verbatim>\<open>as<MemoryValue>()\<close>, \<^verbatim>\<open>as<AtomicValue>()\<close>, \<^verbatim>\<open>as<FenceValue>()\<close>,
  \<^verbatim>\<open>as<CCallValue>()\<close>, \<^verbatim>\<open>as<PatchpointValue>()\<close> and \<^verbatim>\<open>as<WasmBoundsCheckValue>()\<close>
  followed by the reads of the switch in \<^verbatim>\<open>Value::effects\<close>. \<^verbatim>\<open>Effects::forCheck()\<close> is
  declared in B3Effects.h and is the parameter \<open>forCheck\<close>.
\<close>

definition effects_memory_load :: "Payload \<Rightarrow> error + Effects" where
  "effects_memory_load p =
     (case p of
        MemoryValue rng fenceRng hasFence \<Rightarrow>
          (let result = Effects_default\<lparr>reads := rng\<rparr>;
               result = (if hasFence then result\<lparr>writes := fenceRng, fence := True\<rparr>
                         else result)
           in Inr (result\<lparr>controlDependent := True\<rparr>))
      | _ \<Rightarrow> Inl BadCast)"

definition effects_memory_store :: "Payload \<Rightarrow> error + Effects" where
  "effects_memory_store p =
     (case p of
        MemoryValue rng fenceRng hasFence \<Rightarrow>
          (let result = Effects_default\<lparr>writes := rng\<rparr>;
               result = (if hasFence then result\<lparr>reads := fenceRng, fence := True\<rparr>
                         else result)
           in Inr (result\<lparr>controlDependent := True\<rparr>))
      | _ \<Rightarrow> Inl BadCast)"

definition effects_atomic :: "Payload \<Rightarrow> error + Effects" where
  "effects_atomic p =
     (case p of
        AtomicValue rng fenceRng hasFence \<Rightarrow>
          (let result = Effects_default\<lparr>reads := HeapRange_or rng fenceRng\<rparr>;
               result = result\<lparr>writes := HeapRange_or rng fenceRng\<rparr>;
               result = (if hasFence then result\<lparr>fence := True\<rparr> else result)
           in Inr (result\<lparr>controlDependent := True\<rparr>))
      | _ \<Rightarrow> Inl BadCast)"

definition effects_fence :: "Payload \<Rightarrow> error + Effects" where
  "effects_fence p =
     (case p of
        FenceValue read write \<Rightarrow>
          Inr (Effects_default\<lparr>reads := read, writes := write, fence := True\<rparr>)
      | _ \<Rightarrow> Inl BadCast)"

definition effects_ccall :: "Payload \<Rightarrow> error + Effects" where
  "effects_ccall p = (case p of CCallValue e \<Rightarrow> Inr e | _ \<Rightarrow> Inl BadCast)"

definition effects_patchpoint :: "Payload \<Rightarrow> error + Effects" where
  "effects_patchpoint p = (case p of PatchpointValue e \<Rightarrow> Inr e | _ \<Rightarrow> Inl BadCast)"

definition effects_wasmBoundsCheck :: "Payload \<Rightarrow> error + Effects" where
  "effects_wasmBoundsCheck p =
     (case p of
        WasmBoundsCheckValue boundsType \<Rightarrow>
          (let result = (case boundsType of
                           Pinned \<Rightarrow> Effects_default\<lparr>readsPinned := True\<rparr>
                         | Maximum \<Rightarrow> Effects_default)
           in Inr (result\<lparr>exitsSideways := True\<rparr>))
      | _ \<Rightarrow> Inl BadCast)"

text \<open>The switch of \<^verbatim>\<open>Value::effects\<close>, one equation for each case label.\<close>

primrec effects_switch :: "Effects \<Rightarrow> Opcode \<Rightarrow> Payload \<Rightarrow> error + Effects" where
  "effects_switch forCheck Nop p = Inr Effects_default"
| "effects_switch forCheck Identity p = Inr Effects_default"
| "effects_switch forCheck Opaque p = Inr Effects_default"
| "effects_switch forCheck Const32 p = Inr Effects_default"
| "effects_switch forCheck Const64 p = Inr Effects_default"
| "effects_switch forCheck ConstDouble p = Inr Effects_default"
| "effects_switch forCheck ConstFloat p = Inr Effects_default"
| "effects_switch forCheck BottomTuple p = Inr Effects_default"
| "effects_switch forCheck SlotBase p = Inr Effects_default"
| "effects_switch forCheck ArgumentReg p = Inr Effects_default"
| "effects_switch forCheck FramePointer p = Inr Effects_default"
| "effects_switch forCheck Add p = Inr Effects_default"
| "effects_switch forCheck Sub p = Inr Effects_default"
| "effects_switch forCheck Mul p = Inr Effects_default"
| "effects_switch forCheck Neg p = Inr Effects_default"
| "effects_switch forCheck BitAnd p = Inr Effects_default"
| "effects_switch forCheck BitOr p = Inr Effects_default"
| "effects_switch forCheck BitXor p = Inr Effects_default"
| "effects_switch forCheck Shl p = Inr Effects_default"
| "effects_switch forCheck SShr p = Inr Effects_default"
| "effects_switch forCheck ZShr p = Inr Effects_default"
| "effects_switch forCheck RotR p = Inr Effects_default"
| "effects_switch forCheck RotL p = Inr Effects_default"
| "effects_switch forCheck Clz p = Inr Effects_default"
| "effects_switch forCheck Abs p = Inr Effects_default"
| "effects_switch forCheck Ceil p = Inr Effects_default"
| "effects_switch forCheck Floor p = Inr Effects_default"
| "effects_switch forCheck Sqrt p = Inr Effects_default"
| "effects_switch forCheck BitwiseCast p = Inr Effects_default"
| "effects_switch forCheck SExt8 p = Inr Effects_default"
| "effects_switch forCheck SExt16 p = Inr Effects_default"
| "effects_switch forCheck SExt32 p = Inr Effects_default"
| "effects_switch forCheck ZExt32 p = Inr Effects_default"
| "effects_switch forCheck Trunc p = Inr Effects_default"
| "effects_switch forCheck IToD p = Inr Effects_default"
| "effects_switch forCheck IToF p = Inr Effects_default"
| "effects_switch forCheck FloatToDouble p = Inr Effects_default"
| "effects_switch forCheck DoubleToFloat p = Inr Effects_default"
| "effects_switch forCheck Equal p = Inr Effects_default"
| "effects_switch forCheck NotEqual p = Inr Effects_default"
| "effects_switch forCheck LessThan p = Inr Effects_default"
| "effects_switch forCheck GreaterThan p = Inr Effects_default"
| "effects_switch forCheck LessEqual p = Inr Effects_default"
| "effects_switch forCheck GreaterEqual p = Inr Effects_default"
| "effects_switch forCheck Above p = Inr Effects_default"
| "effects_switch forCheck Below p = Inr Effects_default"
| "effects_switch forCheck AboveEqual p = Inr Effects_default"
| "effects_switch forCheck BelowEqual p = Inr Effects_default"
| "effects_switch forCheck EqualOrUnordered p = Inr Effects_default"
| "effects_switch forCheck Select p = Inr Effects_default"
| "effects_switch forCheck Depend p = Inr Effects_default"
| "effects_switch forCheck Extract p = Inr Effects_default"
| "effects_switch forCheck Div p = Inr (Effects_default\<lparr>controlDependent := True\<rparr>)"
| "effects_switch forCheck UDiv p = Inr (Effects_default\<lparr>controlDependent := True\<rparr>)"
| "effects_switch forCheck Mod p = Inr (Effects_default\<lparr>controlDependent := True\<rparr>)"
| "effects_switch forCheck UMod p = Inr (Effects_default\<lparr>controlDependent := True\<rparr>)"
| "effects_switch forCheck Load8Z p = effects_memory_load p"
| "effects_switch forCheck Load8S p = effects_memory_load p"
| "effects_switch forCheck Load16Z p = effects_memory_load p"
| "effects_switch forCheck Load16S p = effects_memory_load p"
| "effects_switch forCheck Load p = effects_memory_load p"
| "effects_switch forCheck Store8 p = effects_memory_store p"
| "effects_switch forCheck Store16 p = effects_memory_store p"
| "effects_switch forCheck Store p = effects_memory_store p"
| "effects_switch forCheck AtomicWeakCAS p = effects_atomic p"
| "effects_switch forCheck AtomicStrongCAS p = effects_atomic p"
| "effects_switch forCheck AtomicXchgAdd p = effects_atomic p"
| "effects_switch forCheck AtomicXchgAnd p = effects_atomic p"
| "effects_switch forCheck AtomicXchgOr p = effects_atomic p"
| "effects_switch forCheck AtomicXchgSub p = effects_atomic p"
| "effects_switch forCheck AtomicXchgXor p = effects_atomic p"
| "effects_switch forCheck AtomicXchg p = effects_atomic p"
| "effects_switch forCheck WasmAddress p = Inr (Effects_default\<lparr>readsPinned := True\<rparr>)"
| "effects_switch forCheck Fence p = effects_fence p"
| "effects_switch forCheck CCall p = effects_ccall p"
| "effects_switch forCheck Patchpoint p = effects_patchpoint p"
| "effects_switch forCheck CheckAdd p = Inr forCheck"
| "effects_switch forCheck CheckSub p = Inr forCheck"
| "effects_switch forCheck CheckMul p = Inr forCheck"
| "effects_switch forCheck Check p = Inr forCheck"
| "effects_switch forCheck WasmBoundsCheck p = effects_wasmBoundsCheck p"
| "effects_switch forCheck Upsilon p = Inr (Effects_default\<lparr>writesLocalState := True\<rparr>)"
| "effects_switch forCheck Set p = Inr (Effects_default\<lparr>writesLocalState := True\<rparr>)"
| "effects_switch forCheck Phi p = Inr (Effects_default\<lparr>readsLocalState := True\<rparr>)"
| "effects_switch forCheck Get p = Inr (Effects_default\<lparr>readsLocalState := True\<rparr>)"
| "effects_switch forCheck Jump p = Inr (Effects_default\<lparr>terminal := True\<rparr>)"
| "effects_switch forCheck Branch p = Inr (Effects_default\<lparr>terminal := True\<rparr>)"
| "effects_switch forCheck Switch p = Inr (Effects_default\<lparr>terminal := True\<rparr>)"
| "effects_switch forCheck Return p = Inr (Effects_default\<lparr>terminal := True\<rparr>)"
| "effects_switch forCheck Oops p = Inr (Effects_default\<lparr>terminal := True\<rparr>)"
| "effects_switch forCheck EntrySwitch p = Inr (Effects_default\<lparr>terminal := True\<rparr>)"

definition effects :: "Effects \<Rightarrow> Value \<Rightarrow> error + Effects" where
  "effects forCheck v =
     (case effects_switch forCheck (opcode v) (payload v) of
        Inl e \<Rightarrow> Inl e
      | Inr result \<Rightarrow>
          Inr (if traps v then result\<lparr>exitsSideways := True, reads := HeapRange_top\<rparr>
               else result))"

section \<open>Value::typeFor\<close>

text \<open>
  \<^verbatim>\<open>firstChild->type()\<close> and \<^verbatim>\<open>secondChild->type()\<close>: the two pointer arguments are
  given as the nodes they point to, \<open>None\<close> for \<^verbatim>\<open>nullptr\<close>.
\<close>

definition type_of_child :: "Value option \<Rightarrow> error + Type" where
  "type_of_child c = (case c of None \<Rightarrow> Inl NullDeref | Some v \<Rightarrow> Inr (m_type v))"

text \<open>
  The inner switch of the BitwiseCast case. For Void and Tuple the source reaches
  \<^verbatim>\<open>ASSERT_NOT_REACHED()\<close>, leaves the switch and returns Void.
\<close>

definition typeFor_BitwiseCast :: "Type \<Rightarrow> Type" where
  "typeFor_BitwiseCast t =
     (case t of
        Int64 \<Rightarrow> Double
      | Double \<Rightarrow> Int64
      | Int32 \<Rightarrow> Float
      | Float \<Rightarrow> Int32
      | Void \<Rightarrow> Void
      | Tuple \<Rightarrow> Void)"

text \<open>
  \<^verbatim>\<open>Value::typeFor(kind, firstChild, secondChild)\<close>. \<^verbatim>\<open>pointerType()\<close> is declared in
  B3Type.h and is the parameter \<open>pointerType\<close>. The default label is
  \<^verbatim>\<open>RELEASE_ASSERT_NOT_REACHED()\<close>. The Select case has \<^verbatim>\<open>ASSERT(secondChild)\<close> before
  it reads the type of the second child.
\<close>

definition typeFor :: "Type \<Rightarrow> Kind \<Rightarrow> Value option \<Rightarrow> Value option \<Rightarrow> error + Type" where
  "typeFor pointerType kind firstChild secondChild =
     (case k_opcode kind of
        Identity \<Rightarrow> type_of_child firstChild
      | Opaque \<Rightarrow> type_of_child firstChild
      | Add \<Rightarrow> type_of_child firstChild
      | Sub \<Rightarrow> type_of_child firstChild
      | Mul \<Rightarrow> type_of_child firstChild
      | Div \<Rightarrow> type_of_child firstChild
      | UDiv \<Rightarrow> type_of_child firstChild
      | Mod \<Rightarrow> type_of_child firstChild
      | UMod \<Rightarrow> type_of_child firstChild
      | Neg \<Rightarrow> type_of_child firstChild
      | BitAnd \<Rightarrow> type_of_child firstChild
      | BitOr \<Rightarrow> type_of_child firstChild
      | BitXor \<Rightarrow> type_of_child firstChild
      | Shl \<Rightarrow> type_of_child firstChild
      | SShr \<Rightarrow> type_of_child firstChild
      | ZShr \<Rightarrow> type_of_child firstChild
      | RotR \<Rightarrow> type_of_child firstChild
      | RotL \<Rightarrow> type_of_child firstChild
      | Clz \<Rightarrow> type_of_child firstChild
      | Abs \<Rightarrow> type_of_child firstChild
      | Ceil \<Rightarrow> type_of_child firstChild
      | Floor \<Rightarrow> type_of_child firstChild
      | Sqrt \<Rightarrow> type_of_child firstChild
      | CheckAdd \<Rightarrow> type_of_child firstChild
      | CheckSub \<Rightarrow> type_of_child firstChild
      | CheckMul \<Rightarrow> type_of_child firstChild
      | Depend \<Rightarrow> type_of_child firstChild
      | FramePointer \<Rightarrow> Inr pointerType
      | SExt8 \<Rightarrow> Inr Int32
      | SExt16 \<Rightarrow> Inr Int32
      | Equal \<Rightarrow> Inr Int32
      | NotEqual \<Rightarrow> Inr Int32
      | LessThan \<Rightarrow> Inr Int32
      | GreaterThan \<Rightarrow> Inr Int32
      | LessEqual \<Rightarrow> Inr Int32
      | GreaterEqual \<Rightarrow> Inr Int32
      | Above \<Rightarrow> Inr Int32
      | Below \<Rightarrow> Inr Int32
      | AboveEqual \<Rightarrow> Inr Int32
      | BelowEqual \<Rightarrow> Inr Int32
      | EqualOrUnordered \<Rightarrow> Inr Int32
      | Trunc \<Rightarrow>
          (case type_of_child firstChild of
             Inl e \<Rightarrow> Inl e
           | Inr t \<Rightarrow> Inr (if t = Int64 then Int32 else Float))
      | SExt32 \<Rightarrow> Inr Int64
      | ZExt32 \<Rightarrow> Inr Int64
      | FloatToDouble \<Rightarrow> Inr Double
      | IToD \<Rightarrow> Inr Double
      | DoubleToFloat \<Rightarrow> Inr Float
      | IToF \<Rightarrow> Inr Float
      | BitwiseCast \<Rightarrow>
          (case type_of_child firstChild of
             Inl e \<Rightarrow> Inl e
           | Inr t \<Rightarrow> Inr (typeFor_BitwiseCast t))
      | Nop \<Rightarrow> Inr Void
      | Jump \<Rightarrow> Inr Void
      | Branch \<Rightarrow> Inr Void
      | Return \<Rightarrow> Inr Void
      | Oops \<Rightarrow> Inr Void
      | EntrySwitch \<Rightarrow> Inr Void
      | WasmBoundsCheck \<Rightarrow> Inr Void
      | Select \<Rightarrow> type_of_child secondChild
      | _ \<Rightarrow> Inl ReleaseAssert)"

section \<open>The procedure: nodes and blocks at their addresses\<close>

text \<open>
  Modelled from the spec: B3BasicBlock.h is not among the sources. A block owns an
  ordered sequence of nodes and its successor edges; \<^verbatim>\<open>last()\<close> is the last node of
  the sequence, \<^verbatim>\<open>setSuccessors(target)\<close> leaves exactly the one successor
  \<open>target\<close> and \<^verbatim>\<open>clearSuccessors()\<close> leaves none. A successor edge is a block with a
  frequency class.
\<close>

datatype FrequencyClass = Normal | Rare

record FrequentedBlock =
  fb_block :: baddr
  fb_frequency :: FrequencyClass

record BasicBlock =
  m_values :: "addr list"
  m_successors :: "FrequentedBlock list"

definition setSuccessors :: "BasicBlock \<Rightarrow> FrequentedBlock \<Rightarrow> BasicBlock" where
  "setSuccessors b target = b\<lparr>m_successors := [target]\<rparr>"

definition clearSuccessors :: "BasicBlock \<Rightarrow> BasicBlock" where
  "clearSuccessors b = b\<lparr>m_successors := []\<rparr>"

record Procedure =
  proc_values :: "addr \<rightharpoonup> Value"
  proc_blocks :: "baddr \<rightharpoonup> BasicBlock"

text \<open>\<^verbatim>\<open>owner->last()\<close> through a \<^verbatim>\<open>BasicBlock*\<close>.\<close>

definition block_last :: "Procedure \<Rightarrow> baddr option \<Rightarrow> error + addr" where
  "block_last h ownr =
     (case ownr of
        None \<Rightarrow> Inl NullDeref
      | Some b \<Rightarrow>
          (case proc_blocks h b of
             None \<Rightarrow> Inl NullDeref
           | Some blk \<Rightarrow>
               (if m_values blk = [] then Inl OutOfBounds else Inr (last (m_values blk)))))"

text \<open>\<^verbatim>\<open>child(i)\<close> of a node: the i-th entry of its child array.\<close>

definition child :: "Value \<Rightarrow> nat \<Rightarrow> error + addr" where
  "child v i = (if i < length (children v) then Inr (children v ! i) else Inl OutOfBounds)"

text \<open>\<^verbatim>\<open>child(i)->index()\<close>, as the constructors of ValueKey read it.\<close>

definition child_index :: "Procedure \<Rightarrow> Value \<Rightarrow> nat \<Rightarrow> error + 32 word" where
  "child_index h v i =
     (case child v i of
        Inl e \<Rightarrow> Inl e
      | Inr c \<Rightarrow> (case proc_values h c of None \<Rightarrow> Inl NullDeref | Some cv \<Rightarrow> Inr (m_index cv)))"

section \<open>Value::key\<close>

text \<open>
  Modelled from the spec: B3ValueKey.h is not among the sources. A key is an opcode with
  its flag bits, a type, and up to three operand identities or the bits of a literal;
  two keys are equal when all components are. The default key is the invalid one.
\<close>

datatype KeyOperands =
    Indices "32 word" "32 word" "32 word"
  | Literal "64 word"

record ValueKey =
  key_kind :: Kind
  key_type :: Type
  key_u :: KeyOperands

definition ValueKey_default :: ValueKey where
  "ValueKey_default = \<lparr>key_kind = Kind_of Oops, key_type = Void, key_u = Indices 0 0 0\<rparr>"

definition ValueKey_valid :: "ValueKey \<Rightarrow> bool" where
  "ValueKey_valid k = (k \<noteq> ValueKey_default)"

definition ValueKey0 :: "Kind \<Rightarrow> Type \<Rightarrow> error + ValueKey" where
  "ValueKey0 kind type = Inr \<lparr>key_kind = kind, key_type = type, key_u = Indices 0 0 0\<rparr>"

definition ValueKey1 :: "Procedure \<Rightarrow> Value \<Rightarrow> error + ValueKey" where
  "ValueKey1 h v =
     (case child_index h v 0 of
        Inl e \<Rightarrow> Inl e
      | Inr a \<Rightarrow> Inr \<lparr>key_kind = m_kind v, key_type = m_type v, key_u = Indices a 0 0\<rparr>)"

definition ValueKey2 :: "Procedure \<Rightarrow> Value \<Rightarrow> error + ValueKey" where
  "ValueKey2 h v =
     (case child_index h v 0 of
        Inl e \<Rightarrow> Inl e
      | Inr a \<Rightarrow>
          (case child_index h v 1 of
             Inl e \<Rightarrow> Inl e
           | Inr b \<Rightarrow> Inr \<lparr>key_kind = m_kind v, key_type = m_type v, key_u = Indices a b 0\<rparr>))"

definition ValueKey3 :: "Procedure \<Rightarrow> Value \<Rightarrow> error + ValueKey" where
  "ValueKey3 h v =
     (case child_index h v 0 of
        Inl e \<Rightarrow> Inl e
      | Inr a \<Rightarrow>
          (case child_index h v 1 of
             Inl e \<Rightarrow> Inl e
           | Inr b \<Rightarrow>
               (case child_index h v 2 of
                  Inl e \<Rightarrow> Inl e
                | Inr c \<Rightarrow>
                    Inr \<lparr>key_kind = m_kind v, key_type = m_type v, key_u = Indices a b c\<rparr>)))"

definition ValueKey_literal :: "Opcode \<Rightarrow> Type \<Rightarrow> 64 word \<Rightarrow> error + ValueKey" where
  "ValueKey_literal opc type bits =
     Inr \<lparr>key_kind = Kind_of opc, key_type = type, key_u = Literal bits\<rparr>"

text \<open>
  \<^verbatim>\<open>Value::key()\<close>. The literal of a Const32 is \<^verbatim>\<open>static_cast<int64_t>(asInt32())\<close>,
  a sign extension; the indices of an argument register and of a stack slot are
  unsigned.
\<close>

definition key :: "Procedure \<Rightarrow> Value \<Rightarrow> error + ValueKey" where
  "key h v =
     (case opcode v of
        FramePointer \<Rightarrow> ValueKey0 (m_kind v) (m_type v)
      | Identity \<Rightarrow> ValueKey1 h v
      | Opaque \<Rightarrow> ValueKey1 h v
      | Abs \<Rightarrow> ValueKey1 h v
      | Ceil \<Rightarrow> ValueKey1 h v
      | Floor \<Rightarrow> ValueKey1 h v
      | Sqrt \<Rightarrow> ValueKey1 h v
      | SExt8 \<Rightarrow> ValueKey1 h v
      | SExt16 \<Rightarrow> ValueKey1 h v
      | SExt32 \<Rightarrow> ValueKey1 h v
      | ZExt32 \<Rightarrow> ValueKey1 h v
      | Clz \<Rightarrow> ValueKey1 h v
      | Trunc \<Rightarrow> ValueKey1 h v
      | IToD \<Rightarrow> ValueKey1 h v
      | IToF \<Rightarrow> ValueKey1 h v
      | FloatToDouble \<Rightarrow> ValueKey1 h v
      | DoubleToFloat \<Rightarrow> ValueKey1 h v
      | Check \<Rightarrow> ValueKey1 h v
      | BitwiseCast \<Rightarrow> ValueKey1 h v
      | Neg \<Rightarrow> ValueKey1 h v
      | Depend \<Rightarrow> ValueKey1 h v
      | Add \<Rightarrow> ValueKey2 h v
      | Sub \<Rightarrow> ValueKey2 h v
      | Mul \<Rightarrow> ValueKey2 h v
      | Div \<Rightarrow> ValueKey2 h v
      | UDiv \<Rightarrow> ValueKey2 h v
      | Mod \<Rightarrow> ValueKey2 h v
      | UMod \<Rightarrow> ValueKey2 h v
      | BitAnd \<Rightarrow> ValueKey2 h v
      | BitOr \<Rightarrow> ValueKey2 h v
      | BitXor \<Rightarrow> ValueKey2 h v
      | Shl \<Rightarrow> ValueKey2 h v
      | SShr \<Rightarrow> ValueKey2 h v
      | ZShr \<Rightarrow> ValueKey2 h v
      | RotR \<Rightarrow> ValueKey2 h v
      | RotL \<Rightarrow> ValueKey2 h v
      | Equal \<Rightarrow> ValueKey2 h v
      | NotEqual \<Rightarrow> ValueKey2 h v
      | LessThan \<Rightarrow> ValueKey2 h v
      | GreaterThan \<Rightarrow> ValueKey2 h v
      | Above \<Rightarrow> ValueKey2 h v
      | Below \<Rightarrow> ValueKey2 h v
      | AboveEqual \<Rightarrow> ValueKey2 h v
      | BelowEqual \<Rightarrow> ValueKey2 h v
      | EqualOrUnordered \<Rightarrow> ValueKey2 h v
      | CheckAdd \<Rightarrow> ValueKey2 h v
      | CheckSub \<Rightarrow> ValueKey2 h v
      | CheckMul \<Rightarrow> ValueKey2 h v
      | Select \<Rightarrow> ValueKey3 h v
      | Const32 \<Rightarrow>
          (case payload v of
             Const32Value x \<Rightarrow> ValueKey_literal Const32 (m_type v) (scast x)
           | _ \<Rightarrow> Inl BadCast)
      | Const64 \<Rightarrow>
          (case payload v of
             Const64Value x \<Rightarrow> ValueKey_literal Const64 (m_type v) x
           | _ \<Rightarrow> Inl BadCast)
      | ConstDouble \<Rightarrow>
          (case payload v of
             ConstDoubleValue x \<Rightarrow> ValueKey_literal ConstDouble (m_type v) x
           | _ \<Rightarrow> Inl BadCast)
      | ConstFloat \<Rightarrow>
          (case payload v of
             ConstFloatValue x \<Rightarrow> ValueKey_literal ConstFloat (m_type v) (ucast x)
           | _ \<Rightarrow> Inl BadCast)
      | BottomTuple \<Rightarrow> ValueKey0 (Kind_of BottomTuple) (m_type v)
      | ArgumentReg \<Rightarrow>
          (case payload v of
             ArgumentRegValue x \<Rightarrow> ValueKey_literal ArgumentReg (m_type v) (ucast x)
           | _ \<Rightarrow> Inl BadCast)
      | SlotBase \<Rightarrow>
          (case payload v of
             SlotBaseValue x \<Rightarrow> ValueKey_literal SlotBase (m_type v) (ucast x)
           | _ \<Rightarrow> Inl BadCast)
      | _ \<Rightarrow> Inr ValueKey_default)"

section \<open>The in-place replacement protocol\<close>

text \<open>
  \<^verbatim>\<open>Value::badKind\<close>: a log line and \<^verbatim>\<open>RELEASE_ASSERT_NOT_REACHED()\<close>.
\<close>

definition badKind :: "Kind \<Rightarrow> nat \<Rightarrow> error + 'a" where
  "badKind kind numArgs = Inl BadKind"

text \<open>
  Modelled from the spec: the constructors \<^verbatim>\<open>Value(kind, type, origin)\<close> and
  \<^verbatim>\<open>Value(kind, type, origin, child)\<close> are declared in B3Value.h, which is not among the
  sources. A fresh node has the given kind, type and origin and the given children,
  no payload of a subclass, no owner and no index yet (the largest unsigned number);
  constructing a node with an unrecognized combination of opcode and number of
  arguments is fatal, through \<open>badKind\<close>. Which combinations are recognized is the
  parameter \<open>checkOpcode\<close>.
\<close>

definition Value_ctor ::
  "(Kind \<Rightarrow> nat \<Rightarrow> bool) \<Rightarrow> Kind \<Rightarrow> Type \<Rightarrow> Origin \<Rightarrow> addr list \<Rightarrow> error + Value" where
  "Value_ctor checkOpcode kind type origin cs =
     (if checkOpcode kind (length cs)
      then Inr \<lparr>m_index = - 1, m_kind = kind, m_type = type, m_origin = origin,
                owner = None, children = cs, payload = NoPayload\<rparr>
      else badKind kind (length cs))"

text \<open>
  The two overloads of \<^verbatim>\<open>Value::replaceWith\<close>, with the children of the new node as
  a list: empty for \<^verbatim>\<open>replaceWith(kind, type, owner)\<close>, the one child for
  \<^verbatim>\<open>replaceWith(kind, type, owner, value)\<close>. The index is saved, the node is destructed
  and constructed anew at the same address from the kind, the type and the member
  \<^verbatim>\<open>m_origin\<close>, then index and owner are written.
\<close>

definition replaceWith_children ::
  "(Kind \<Rightarrow> nat \<Rightarrow> bool) \<Rightarrow> Procedure \<Rightarrow> addr \<Rightarrow> Kind \<Rightarrow> Type \<Rightarrow> baddr option \<Rightarrow> addr list
     \<Rightarrow> error + Procedure" where
  "replaceWith_children checkOpcode h this kind type ownr cs =
     (case proc_values h this of
        None \<Rightarrow> Inl NullDeref
      | Some old \<Rightarrow>
          (let index = m_index old in
           case Value_ctor checkOpcode kind type (m_origin old) cs of
             Inl e \<Rightarrow> Inl e
           | Inr new \<Rightarrow>
               Inr (h\<lparr>proc_values :=
                         (proc_values h)(this \<mapsto> new\<lparr>m_index := index, owner := ownr\<rparr>)\<rparr>)))"

definition replaceWith ::
  "(Kind \<Rightarrow> nat \<Rightarrow> bool) \<Rightarrow> Procedure \<Rightarrow> addr \<Rightarrow> Kind \<Rightarrow> Type \<Rightarrow> baddr option
     \<Rightarrow> error + Procedure" where
  "replaceWith checkOpcode h this kind type ownr =
     replaceWith_children checkOpcode h this kind type ownr []"

definition replaceWith_value ::
  "(Kind \<Rightarrow> nat \<Rightarrow> bool) \<Rightarrow> Procedure \<Rightarrow> addr \<Rightarrow> Kind \<Rightarrow> Type \<Rightarrow> baddr option \<Rightarrow> addr
     \<Rightarrow> error + Procedure" where
  "replaceWith_value checkOpcode h this kind type ownr val =
     replaceWith_children checkOpcode h this kind type ownr [val]"

definition replaceWithNopIgnoringType ::
  "(Kind \<Rightarrow> nat \<Rightarrow> bool) \<Rightarrow> Procedure \<Rightarrow> addr \<Rightarrow> error + Procedure" where
  "replaceWithNopIgnoringType checkOpcode h this =
     (case proc_values h this of
        None \<Rightarrow> Inl NullDeref
      | Some v \<Rightarrow> replaceWith checkOpcode h this (Kind_of Nop) Void (owner v))"

definition replaceWithNop ::
  "(Kind \<Rightarrow> nat \<Rightarrow> bool) \<Rightarrow> Procedure \<Rightarrow> addr \<Rightarrow> error + Procedure" where
  "replaceWithNop checkOpcode h this =
     (case proc_values h this of
        None \<Rightarrow> Inl NullDeref
      | Some v \<Rightarrow>
          (if m_type v \<noteq> Void then Inl ReleaseAssert
           else replaceWithNopIgnoringType checkOpcode h this))"

text \<open>
  \<^verbatim>\<open>Value::replaceWithIdentity\<close>. After the release assertion on the two types the
  source has \<^verbatim>\<open>ASSERT(value != this)\<close>, which is no code in the release configuration.
\<close>

definition replaceWithIdentity ::
  "(Kind \<Rightarrow> nat \<Rightarrow> bool) \<Rightarrow> Procedure \<Rightarrow> addr \<Rightarrow> addr \<Rightarrow> error + Procedure" where
  "replaceWithIdentity checkOpcode h this val =
     (case proc_values h this of
        None \<Rightarrow> Inl NullDeref
      | Some v \<Rightarrow>
          (case proc_values h val of
             None \<Rightarrow> Inl NullDeref
           | Some tv \<Rightarrow>
               (if m_type v \<noteq> m_type tv then Inl ReleaseAssert
                else if m_type v = Void then replaceWithNopIgnoringType checkOpcode h this
                else replaceWith_value checkOpcode h this (Kind_of Identity) (m_type v)
                       (owner v) val)))"

definition replaceWithPhi ::
  "(Kind \<Rightarrow> nat \<Rightarrow> bool) \<Rightarrow> Procedure \<Rightarrow> addr \<Rightarrow> error + Procedure" where
  "replaceWithPhi checkOpcode h this =
     (case proc_values h this of
        None \<Rightarrow> Inl NullDeref
      | Some v \<Rightarrow>
          (if m_type v = Void then replaceWithNop checkOpcode h this
           else replaceWith checkOpcode h this (Kind_of Phi) (m_type v) (owner v)))"

text \<open>
  \<^verbatim>\<open>owner->setSuccessors(target)\<close> and \<^verbatim>\<open>owner->clearSuccessors()\<close> through a
  \<^verbatim>\<open>BasicBlock*\<close>.
\<close>

definition update_block ::
  "Procedure \<Rightarrow> baddr option \<Rightarrow> (BasicBlock \<Rightarrow> BasicBlock) \<Rightarrow> error + Procedure" where
  "update_block h ownr f =
     (case ownr of
        None \<Rightarrow> Inl NullDeref
      | Some b \<Rightarrow>
          (case proc_blocks h b of
             None \<Rightarrow> Inl NullDeref
           | Some blk \<Rightarrow> Inr (h\<lparr>proc_blocks := (proc_blocks h)(b \<mapsto> f blk)\<rparr>)))"

text \<open>
  \<^verbatim>\<open>replaceWithJump(owner, target)\<close> and \<^verbatim>\<open>replaceWithOops(owner)\<close>. The assertion and
  the successors are those of the block given as argument; the owner written back
  to the node is the member \<^verbatim>\<open>this->owner\<close>.
\<close>

definition replaceWithJump ::
  "(Kind \<Rightarrow> nat \<Rightarrow> bool) \<Rightarrow> Procedure \<Rightarrow> addr \<Rightarrow> baddr option \<Rightarrow> FrequentedBlock
     \<Rightarrow> error + Procedure" where
  "replaceWithJump checkOpcode h this ownr target =
     (case block_last h ownr of
        Inl e \<Rightarrow> Inl e
      | Inr l \<Rightarrow>
          (if l \<noteq> this then Inl ReleaseAssert
           else
             (case proc_values h this of
                None \<Rightarrow> Inl NullDeref
              | Some v \<Rightarrow>
                  (case replaceWith checkOpcode h this (Kind_of Jump) Void (owner v) of
                     Inl e \<Rightarrow> Inl e
                   | Inr h' \<Rightarrow> update_block h' ownr (\<lambda>b. setSuccessors b target)))))"

definition replaceWithOops ::
  "(Kind \<Rightarrow> nat \<Rightarrow> bool) \<Rightarrow> Procedure \<Rightarrow> addr \<Rightarrow> baddr option \<Rightarrow> error + Procedure" where
  "replaceWithOops checkOpcode h this ownr =
     (case block_last h ownr of
        Inl e \<Rightarrow> Inl e
      | Inr l \<Rightarrow>
          (if l \<noteq> this then Inl ReleaseAssert
           else
             (case proc_values h this of
                None \<Rightarrow> Inl NullDeref
              | Some v \<Rightarrow>
                  (case replaceWith checkOpcode h this (Kind_of Oops) Void (owner v) of
                     Inl e \<Rightarrow> Inl e
                   | Inr h' \<Rightarrow> update_block h' ownr clearSuccessors))))"

text \<open>
  The overloads \<^verbatim>\<open>replaceWithJump(target)\<close> and \<^verbatim>\<open>replaceWithOops()\<close> pass the member
  \<^verbatim>\<open>owner\<close>.
\<close>

definition replaceWithJump_target ::
  "(Kind \<Rightarrow> nat \<Rightarrow> bool) \<Rightarrow> Procedure \<Rightarrow> addr \<Rightarrow> FrequentedBlock \<Rightarrow> error + Procedure" where
  "replaceWithJump_target checkOpcode h this target =
     (case proc_values h this of
        None \<Rightarrow> Inl NullDeref
      | Some v \<Rightarrow> replaceWithJump checkOpcode h this (owner v) target)"

definition replaceWithOops_member ::
  "(Kind \<Rightarrow> nat \<Rightarrow> bool) \<Rightarrow> Procedure \<Rightarrow> addr \<Rightarrow> error + Procedure" where
  "replaceWithOops_member checkOpcode h this =
     (case proc_values h this of
        None \<Rightarrow> Inl NullDeref
      | Some v \<Rightarrow> replaceWithOops checkOpcode h this (owner v))"

section \<open>Value::foldIdentity and Value::performSubstitution\<close>

text \<open>
  The loop of \<^verbatim>\<open>Value::foldIdentity\<close>, with a counter of the iterations it has made.
  The loop has no bound in the source: on a cycle of Identity nodes it does not
  return, and the result here is \<open>None\<close>.
\<close>

partial_function (option) foldIdentity_loop ::
  "Procedure \<Rightarrow> addr \<Rightarrow> nat \<Rightarrow> (error + addr \<times> nat) option" where
  "foldIdentity_loop h current steps =
     (case proc_values h current of
        None \<Rightarrow> Some (Inl NullDeref)
      | Some v \<Rightarrow>
          (if opcode v = Identity
           then (case child v 0 of
                   Inl e \<Rightarrow> Some (Inl e)
                 | Inr c \<Rightarrow> foldIdentity_loop h c (Suc steps))
           else Some (Inr (current, steps))))"

definition foldIdentity :: "Procedure \<Rightarrow> addr \<Rightarrow> (error + addr) option" where
  "foldIdentity h this = map_option (map_sum id fst) (foldIdentity_loop h this 0)"

text \<open>
  The loop of \<^verbatim>\<open>Value::performSubstitution\<close> over the positions of the child array of
  \<open>this\<close>, which are fixed when the loop starts. Each iteration reads the child at its
  position from the procedure as the iterations before have left it, and writes the
  folded child back at that position.
\<close>

fun performSubstitution_loop ::
  "Procedure \<Rightarrow> addr \<Rightarrow> nat list \<Rightarrow> bool \<Rightarrow> (error + Procedure \<times> bool) option" where
  "performSubstitution_loop h this [] result = Some (Inr (h, result))"
| "performSubstitution_loop h this (i # is) result =
     (case proc_values h this of
        None \<Rightarrow> Some (Inl NullDeref)
      | Some v \<Rightarrow>
          (case child v i of
             Inl e \<Rightarrow> Some (Inl e)
           | Inr c \<Rightarrow>
               (case proc_values h c of
                  None \<Rightarrow> Some (Inl NullDeref)
                | Some cv \<Rightarrow>
                    (if opcode cv = Identity
                     then (case foldIdentity h c of
                             None \<Rightarrow> None
                           | Some (Inl e) \<Rightarrow> Some (Inl e)
                           | Some (Inr d) \<Rightarrow>
                               performSubstitution_loop
                                 (h\<lparr>proc_values :=
                                      (proc_values h)(this \<mapsto> v\<lparr>children := (children v)[i := d]\<rparr>)\<rparr>)
                                 this is True)
                     else performSubstitution_loop h this is result))))"

definition performSubstitution ::
  "Procedure \<Rightarrow> addr \<Rightarrow> (error + Procedure \<times> bool) option" where
  "performSubstitution h this =
     (case proc_values h this of
        None \<Rightarrow> Some (Inl NullDeref)
      | Some v \<Rightarrow> performSubstitution_loop h this [0 ..< length (children v)] False)"

section \<open>Well-formed nodes\<close>

text \<open>
  A node is an instance of the Value subclass that its opcode names. This is what the
  casts \<^verbatim>\<open>as<MemoryValue>()\<close>, \<^verbatim>\<open>as<AtomicValue>()\<close>, \<^verbatim>\<open>as<FenceValue>()\<close>,
  \<^verbatim>\<open>as<CCallValue>()\<close>, \<^verbatim>\<open>as<PatchpointValue>()\<close> and \<^verbatim>\<open>as<WasmBoundsCheckValue>()\<close> of
  \<^verbatim>\<open>Value::effects\<close> rely on.
\<close>

definition isMemoryValue :: "Payload \<Rightarrow> bool" where
  "isMemoryValue p = (case p of MemoryValue _ _ _ \<Rightarrow> True | _ \<Rightarrow> False)"

definition isAtomicValue :: "Payload \<Rightarrow> bool" where
  "isAtomicValue p = (case p of AtomicValue _ _ _ \<Rightarrow> True | _ \<Rightarrow> False)"

definition subclass_matches :: "Opcode \<Rightarrow> Payload \<Rightarrow> bool" where
  "subclass_matches opc p =
     (case opc of
        Load8Z \<Rightarrow> isMemoryValue p
      | Load8S \<Rightarrow> isMemoryValue p
      | Load16Z \<Rightarrow> isMemoryValue p
      | Load16S \<Rightarrow> isMemoryValue p
      | Load \<Rightarrow> isMemoryValue p
      | Store8 \<Rightarrow> isMemoryValue p
      | Store16 \<Rightarrow> isMemoryValue p
      | Store \<Rightarrow> isMemoryValue p
      | AtomicWeakCAS \<Rightarrow> isAtomicValue p
      | AtomicStrongCAS \<Rightarrow> isAtomicValue p
      | AtomicXchgAdd \<Rightarrow> isAtomicValue p
      | AtomicXchgAnd \<Rightarrow> isAtomicValue p
      | AtomicXchgOr \<Rightarrow> isAtomicValue p
      | AtomicXchgSub \<Rightarrow> isAtomicValue p
      | AtomicXchgXor \<Rightarrow> isAtomicValue p
      | AtomicXchg \<Rightarrow> isAtomicValue p
      | Fence \<Rightarrow> (case p of FenceValue _ _ \<Rightarrow> True | _ \<Rightarrow> False)
      | CCall \<Rightarrow> (case p of CCallValue _ \<Rightarrow> True | _ \<Rightarrow> False)
      | Patchpoint \<Rightarrow> (case p of PatchpointValue _ \<Rightarrow> True | _ \<Rightarrow> False)
      | WasmBoundsCheck \<Rightarrow> (case p of WasmBoundsCheckValue _ \<Rightarrow> True | _ \<Rightarrow> False)
      | _ \<Rightarrow> True)"

section \<open>Predicates of the properties\<close>

text \<open>
  Identity stability between a procedure and its successor by an operation on the node
  at \<open>this\<close>: at every address the node has the index it had, so a reference by index
  resolves to the same node as before, and every node other than \<open>this\<close> is unchanged,
  so the references recorded in other nodes are the same addresses.
\<close>

definition identity_stable :: "Procedure \<Rightarrow> addr \<Rightarrow> Procedure \<Rightarrow> bool" where
  "identity_stable h this h' =
     ((\<forall>a. map_option m_index (proc_values h' a) = map_option m_index (proc_values h a))
      \<and> (\<forall>a. a \<noteq> this \<longrightarrow> proc_values h' a = proc_values h a))"

text \<open>
  What a reference to the node at \<open>this\<close> observes after an operation: the node is
  still there, with the index it had, and it now has the kind \<open>kind\<close>, the type \<open>type\<close>
  and the children \<open>cs\<close>.
\<close>

definition now_observes ::
  "Procedure \<Rightarrow> addr \<Rightarrow> Procedure \<Rightarrow> Kind \<Rightarrow> Type \<Rightarrow> addr list \<Rightarrow> bool" where
  "now_observes h this h' kind type cs =
     (case proc_values h this of
        None \<Rightarrow> False
      | Some v \<Rightarrow>
          (case proc_values h' this of
             None \<Rightarrow> False
           | Some v' \<Rightarrow>
               m_index v' = m_index v \<and> m_kind v' = kind \<and> m_type v' = type
               \<and> children v' = cs))"

text \<open>The type of the node at \<open>this\<close>, when there is one.\<close>

definition type_at :: "Procedure \<Rightarrow> addr \<Rightarrow> Type option" where
  "type_at h this = map_option m_type (proc_values h this)"

text \<open>
  The node at \<open>a\<close> heads a chain of \<open>n\<close> Identity nodes, each the first child of the one
  before, that ends at the node \<open>d\<close>, whose opcode is not Identity. Such a chain is
  finite, so it has no cycle.
\<close>

fun identityChain :: "Procedure \<Rightarrow> addr \<Rightarrow> nat \<Rightarrow> addr \<Rightarrow> bool" where
  "identityChain h a 0 d =
     (a = d \<and> (case proc_values h a of None \<Rightarrow> False | Some v \<Rightarrow> opcode v \<noteq> Identity))"
| "identityChain h a (Suc n) d =
     (case proc_values h a of
        None \<Rightarrow> False
      | Some v \<Rightarrow>
          opcode v = Identity
          \<and> (case children v of [] \<Rightarrow> False | c # _ \<Rightarrow> identityChain h c n d))"

declare identityChain.simps [simp del]

definition isIdentity :: "Procedure \<Rightarrow> addr \<Rightarrow> bool" where
  "isIdentity h a = (case proc_values h a of None \<Rightarrow> False | Some v \<Rightarrow> opcode v = Identity)"

text \<open>The procedure in which the node \<open>v\<close> at \<open>this\<close> has the child array \<open>cs\<close>.\<close>

definition set_children :: "Procedure \<Rightarrow> addr \<Rightarrow> Value \<Rightarrow> addr list \<Rightarrow> Procedure" where
  "set_children h this v cs = h\<lparr>proc_values := (proc_values h)(this \<mapsto> v\<lparr>children := cs\<rparr>)\<rparr>"

section \<open>An example procedure\<close>

text \<open>
  One block of six nodes: a constant, two Identity nodes that forward to it in a chain,
  an Add of the chain's head and the constant, a Store and the Branch that ends the
  block. \<open>checkOpcode_example\<close> is an instance of the constructor's parameter that
  recognizes the combinations the replacement operations construct.
\<close>

definition checkOpcode_example :: "Kind \<Rightarrow> nat \<Rightarrow> bool" where
  "checkOpcode_example kind numArgs =
     (case k_opcode kind of
        Nop \<Rightarrow> numArgs = 0
      | Phi \<Rightarrow> numArgs = 0
      | Jump \<Rightarrow> numArgs = 0
      | Oops \<Rightarrow> numArgs = 0
      | Identity \<Rightarrow> numArgs = 1
      | _ \<Rightarrow> False)"

definition example_values :: "addr \<rightharpoonup> Value" where
  "example_values =
     [0 \<mapsto> \<lparr>m_index = 10, m_kind = Kind_of Const32, m_type = Int32, m_origin = 1,
              owner = Some 0, children = [], payload = Const32Value 5\<rparr>,
      1 \<mapsto> \<lparr>m_index = 11, m_kind = Kind_of Identity, m_type = Int32, m_origin = 2,
              owner = Some 0, children = [0], payload = NoPayload\<rparr>,
      2 \<mapsto> \<lparr>m_index = 12, m_kind = Kind_of Identity, m_type = Int32, m_origin = 3,
              owner = Some 0, children = [1], payload = NoPayload\<rparr>,
      3 \<mapsto> \<lparr>m_index = 13, m_kind = Kind_of Add, m_type = Int32, m_origin = 7,
              owner = Some 0, children = [2, 0], payload = NoPayload\<rparr>,
      4 \<mapsto> \<lparr>m_index = 14, m_kind = Kind_of Store, m_type = Void, m_origin = 9,
              owner = Some 0, children = [3, 0],
              payload = MemoryValue \<lparr>m_begin = 8, m_end = 16\<rparr> HeapRange_default False\<rparr>,
      5 \<mapsto> \<lparr>m_index = 15, m_kind = Kind_of Branch, m_type = Void, m_origin = 4,
              owner = Some 0, children = [3], payload = NoPayload\<rparr>]"

definition example_blocks :: "baddr \<rightharpoonup> BasicBlock" where
  "example_blocks =
     [0 \<mapsto> \<lparr>m_values = [0, 1, 2, 3, 4, 5],
              m_successors = [\<lparr>fb_block = 1, fb_frequency = Normal\<rparr>,
                              \<lparr>fb_block = 2, fb_frequency = Rare\<rparr>]\<rparr>,
      1 \<mapsto> \<lparr>m_values = [], m_successors = []\<rparr>,
      2 \<mapsto> \<lparr>m_values = [], m_successors = []\<rparr>]"

definition example_proc :: Procedure where
  "example_proc = \<lparr>proc_values = example_values, proc_blocks = example_blocks\<rparr>"

text \<open>A comparison of the constant and the Add of the example, of type Int32.\<close>

definition compare_node :: "Opcode \<Rightarrow> Value" where
  "compare_node opc =
     \<lparr>m_index = 16, m_kind = Kind_of opc, m_type = Int32, m_origin = 5,
      owner = Some 0, children = [0, 3], payload = NoPayload\<rparr>"

lemmas example_defs =
  example_proc_def example_values_def example_blocks_def checkOpcode_example_def
  opcode_def traps_def Kind_of_def child_def

section \<open>Effects of a node\<close>

lemma effects_switch_total:
  "subclass_matches opc p \<Longrightarrow> \<exists>r. effects_switch forCheck opc p = Inr r"
  by (cases opc;
      simp add: subclass_matches_def isMemoryValue_def isAtomicValue_def
        effects_memory_load_def effects_memory_store_def effects_atomic_def effects_fence_def
        effects_ccall_def effects_patchpoint_def effects_wasmBoundsCheck_def Let_def
      split: Payload.splits)

text \<open>
  C10. A WasmAddress node whose kind is not flagged as trapping has the effects with
  \<open>readsPinned\<close> true and every other field at its default: both ranges empty and
  every other flag false.
\<close>

theorem effects_WasmAddress:
  "opcode v = WasmAddress \<Longrightarrow> \<not> traps v \<Longrightarrow>
   effects forCheck v =
     Inr \<lparr>terminal = False, exitsSideways = False, controlDependent = False,
          writesLocalState = False, readsLocalState = False, readsPinned = True,
          fence = False, writes = HeapRange_default, reads = HeapRange_default\<rparr>"
  by (simp add: effects_def Effects_default_def)

theorem effects_WasmAddress_witness:
  "effects Effects_default
     \<lparr>m_index = 4, m_kind = Kind_of WasmAddress, m_type = Int64, m_origin = 0,
      owner = None, children = [1], payload = NoPayload\<rparr> =
     Inr \<lparr>terminal = False, exitsSideways = False, controlDependent = False,
          writesLocalState = False, readsLocalState = False, readsPinned = True,
          fence = False, writes = HeapRange_default, reads = HeapRange_default\<rparr>"
  using effects_WasmAddress
    [of "\<lparr>m_index = 4, m_kind = Kind_of WasmAddress, m_type = Int64, m_origin = 0,
          owner = None, children = [1], payload = NoPayload\<rparr>" Effects_default]
  by (simp add: opcode_def traps_def Kind_of_def)

text \<open>
  C3. For a node that is not flagged as trapping: an Add has the default effects, all
  flags false and both ranges empty; a Div has \<open>controlDependent\<close> and nothing else;
  a Load that is a MemoryValue with a fence reads its declared range, writes its fence
  range, is a fence and is control dependent, and nothing else; a Return is terminal
  and nothing else.
\<close>

theorem effects_classification:
  assumes "\<not> traps v"
  shows "(opcode v = Add \<longrightarrow>
            effects forCheck v =
              Inr \<lparr>terminal = False, exitsSideways = False, controlDependent = False,
                   writesLocalState = False, readsLocalState = False, readsPinned = False,
                   fence = False, writes = HeapRange_default, reads = HeapRange_default\<rparr>)
       \<and> (opcode v = Div \<longrightarrow>
            effects forCheck v =
              Inr \<lparr>terminal = False, exitsSideways = False, controlDependent = True,
                   writesLocalState = False, readsLocalState = False, readsPinned = False,
                   fence = False, writes = HeapRange_default, reads = HeapRange_default\<rparr>)
       \<and> (opcode v = Load \<and> payload v = MemoryValue rng fenceRng True \<longrightarrow>
            effects forCheck v =
              Inr \<lparr>terminal = False, exitsSideways = False, controlDependent = True,
                   writesLocalState = False, readsLocalState = False, readsPinned = False,
                   fence = True, writes = fenceRng, reads = rng\<rparr>)
       \<and> (opcode v = Return \<longrightarrow>
            effects forCheck v =
              Inr \<lparr>terminal = True, exitsSideways = False, controlDependent = False,
                   writesLocalState = False, readsLocalState = False, readsPinned = False,
                   fence = False, writes = HeapRange_default, reads = HeapRange_default\<rparr>)"
  using assms by (simp add: effects_def effects_memory_load_def Effects_default_def)

theorem effects_classification_witness:
  "effects Effects_default
     \<lparr>m_index = 2, m_kind = Kind_of Add, m_type = Int32, m_origin = 0,
      owner = None, children = [0, 1], payload = NoPayload\<rparr> = Inr Effects_default
   \<and> controlDependent (projr (effects Effects_default
     \<lparr>m_index = 2, m_kind = Kind_of Div, m_type = Int32, m_origin = 0,
      owner = None, children = [0, 1], payload = NoPayload\<rparr>))
   \<and> effects Effects_default
     \<lparr>m_index = 2, m_kind = Kind_of Load, m_type = Int32, m_origin = 0,
      owner = None, children = [0],
      payload = MemoryValue \<lparr>m_begin = 8, m_end = 16\<rparr> \<lparr>m_begin = 0, m_end = 4\<rparr> True\<rparr> =
     Inr \<lparr>terminal = False, exitsSideways = False, controlDependent = True,
          writesLocalState = False, readsLocalState = False, readsPinned = False,
          fence = True, writes = \<lparr>m_begin = 0, m_end = 4\<rparr>,
          reads = \<lparr>m_begin = 8, m_end = 16\<rparr>\<rparr>
   \<and> terminal (projr (effects Effects_default
     \<lparr>m_index = 2, m_kind = Kind_of Return, m_type = Void, m_origin = 0,
      owner = None, children = [0], payload = NoPayload\<rparr>))"
  using
    effects_classification
      [of "\<lparr>m_index = 2, m_kind = Kind_of Add, m_type = Int32, m_origin = 0,
            owner = None, children = [0, 1], payload = NoPayload\<rparr>" Effects_default]
    effects_classification
      [of "\<lparr>m_index = 2, m_kind = Kind_of Div, m_type = Int32, m_origin = 0,
            owner = None, children = [0, 1], payload = NoPayload\<rparr>" Effects_default]
    effects_classification
      [of "\<lparr>m_index = 2, m_kind = Kind_of Load, m_type = Int32, m_origin = 0,
            owner = None, children = [0],
            payload = MemoryValue \<lparr>m_begin = 8, m_end = 16\<rparr> \<lparr>m_begin = 0, m_end = 4\<rparr> True\<rparr>"
          Effects_default "\<lparr>m_begin = 8, m_end = 16\<rparr>" "\<lparr>m_begin = 0, m_end = 4\<rparr>"]
    effects_classification
      [of "\<lparr>m_index = 2, m_kind = Kind_of Return, m_type = Void, m_origin = 0,
            owner = None, children = [0], payload = NoPayload\<rparr>" Effects_default]
  by (simp add: opcode_def traps_def Kind_of_def Effects_default_def)

text \<open>
  C7. For a node of any opcode whose kind is flagged as trapping, and which is an
  instance of the subclass its opcode names, \<^verbatim>\<open>effects()\<close> returns a descriptor: the one
  that the opcode's case of the switch produced, with \<open>exitsSideways\<close> set and \<open>reads\<close>
  replaced by the entire address space whatever range the case had given.
\<close>

theorem effects_traps:
  assumes "traps v" and "subclass_matches (opcode v) (payload v)"
  shows "\<exists>r e. effects_switch forCheck (opcode v) (payload v) = Inr r
           \<and> effects forCheck v = Inr e
           \<and> e = r\<lparr>exitsSideways := True, reads := HeapRange_top\<rparr>
           \<and> exitsSideways e \<and> reads e = HeapRange_top"
proof -
  from assms(2) obtain r where r: "effects_switch forCheck (opcode v) (payload v) = Inr r"
    using effects_switch_total by blast
  with assms(1) have "effects forCheck v = Inr (r\<lparr>exitsSideways := True, reads := HeapRange_top\<rparr>)"
    by (simp add: effects_def)
  with r show ?thesis by simp
qed

theorem effects_traps_witness:
  "effects Effects_default
     \<lparr>m_index = 2, m_kind = \<lparr>k_opcode = Load, k_isChill = False, k_traps = True\<rparr>,
      m_type = Int32, m_origin = 0, owner = None, children = [0],
      payload = MemoryValue \<lparr>m_begin = 8, m_end = 16\<rparr> HeapRange_default False\<rparr> =
     Inr \<lparr>terminal = False, exitsSideways = True, controlDependent = True,
          writesLocalState = False, readsLocalState = False, readsPinned = False,
          fence = False, writes = HeapRange_default, reads = HeapRange_top\<rparr>"
  using effects_traps
    [of "\<lparr>m_index = 2, m_kind = \<lparr>k_opcode = Load, k_isChill = False, k_traps = True\<rparr>,
          m_type = Int32, m_origin = 0, owner = None, children = [0],
          payload = MemoryValue \<lparr>m_begin = 8, m_end = 16\<rparr> HeapRange_default False\<rparr>"
        Effects_default]
  by (simp add: opcode_def traps_def subclass_matches_def isMemoryValue_def
        effects_memory_load_def Effects_default_def)

section \<open>Type inference\<close>

lemma type_of_child_cong:
  "map_option m_type x = map_option m_type x' \<Longrightarrow> type_of_child x = type_of_child x'"
  by (cases x; cases x'; simp add: type_of_child_def)

text \<open>
  C5. \<^verbatim>\<open>typeFor\<close> is a function of its arguments and reads nothing else, and its result
  is the same for any two calls that agree on the opcode and on the types of the two
  operands. For Add it is the type of the first operand; for each of the eleven
  comparison opcodes it is Int32; for BitwiseCast it is Double, Int64, Float and Int32
  for a first operand of type Int64, Double, Int32 and Float; for Select it is the type
  of the second operand; for Nop, Jump, Branch, Return, Oops, EntrySwitch and
  WasmBoundsCheck it is Void.
\<close>

theorem typeFor_rules:
  "(k_opcode kind = k_opcode kind' \<and> map_option m_type x = map_option m_type x'
      \<and> map_option m_type y = map_option m_type y'
      \<longrightarrow> typeFor pointerType kind x y = typeFor pointerType kind' x' y')
   \<and> (k_opcode kind = Add \<longrightarrow> typeFor pointerType kind (Some a) y = Inr (m_type a))
   \<and> (k_opcode kind \<in> {Equal, NotEqual, LessThan, GreaterThan, LessEqual, GreaterEqual,
                        Above, Below, AboveEqual, BelowEqual, EqualOrUnordered}
      \<longrightarrow> typeFor pointerType kind x y = Inr Int32)
   \<and> (k_opcode kind = BitwiseCast \<longrightarrow>
        (m_type a = Int64 \<longrightarrow> typeFor pointerType kind (Some a) y = Inr Double)
      \<and> (m_type a = Double \<longrightarrow> typeFor pointerType kind (Some a) y = Inr Int64)
      \<and> (m_type a = Int32 \<longrightarrow> typeFor pointerType kind (Some a) y = Inr Float)
      \<and> (m_type a = Float \<longrightarrow> typeFor pointerType kind (Some a) y = Inr Int32))
   \<and> (k_opcode kind = Select \<longrightarrow> typeFor pointerType kind x (Some b) = Inr (m_type b))
   \<and> (k_opcode kind \<in> {Nop, Jump, Branch, Return, Oops, EntrySwitch, WasmBoundsCheck}
      \<longrightarrow> typeFor pointerType kind x y = Inr Void)"
proof (intro conjI impI)
  assume "k_opcode kind = k_opcode kind' \<and> map_option m_type x = map_option m_type x'
      \<and> map_option m_type y = map_option m_type y'"
  then have k: "k_opcode kind = k_opcode kind'"
    and x: "type_of_child x = type_of_child x'"
    and y: "type_of_child y = type_of_child y'"
    by (blast intro: type_of_child_cong)+
  show "typeFor pointerType kind x y = typeFor pointerType kind' x' y'"
    unfolding typeFor_def k x y ..
qed (auto simp add: typeFor_def type_of_child_def typeFor_BitwiseCast_def)

theorem typeFor_rules_witness:
  "typeFor Int64 (Kind_of Add) (example_values 0) (example_values 3) = Inr Int32
   \<and> typeFor Int64 (Kind_of Add) (example_values 0) (example_values 3) =
       typeFor Int64 \<lparr>k_opcode = Add, k_isChill = True, k_traps = False\<rparr>
         (example_values 3) (example_values 0)
   \<and> typeFor Int64 (Kind_of Equal) (example_values 0) (example_values 3) = Inr Int32
   \<and> typeFor Int64 (Kind_of LessEqual) None None = Inr Int32
   \<and> typeFor Int64 (Kind_of BitwiseCast) (example_values 0) None = Inr Float
   \<and> typeFor Int64 (Kind_of Select) (example_values 5) (example_values 3) = Inr Int32
   \<and> typeFor Int64 (Kind_of Return) (example_values 0) None = Inr Void"
  using
    typeFor_rules [where pointerType = Int64 and kind = "Kind_of Add" and kind' = "\<lparr>k_opcode = Add, k_isChill = True, k_traps = False\<rparr>"
      and x = "example_values 0" and x' = "example_values 3" and y = "example_values 3" and y' = "example_values 0"
      and a = "the (example_values 0)" and b = "the (example_values 3)"]
    typeFor_rules [where pointerType = Int64 and kind = "Kind_of Equal" and kind' = "Kind_of Equal"
      and x = "example_values 0" and x' = "example_values 0" and y = "example_values 3" and y' = "example_values 3"
      and a = "the (example_values 0)" and b = "the (example_values 3)"]
    typeFor_rules [where pointerType = Int64 and kind = "Kind_of LessEqual" and kind' = "Kind_of LessEqual"
      and x = "None" and x' = "None" and y = "None" and y' = "None"
      and a = "the (example_values 0)" and b = "the (example_values 3)"]
    typeFor_rules [where pointerType = Int64 and kind = "Kind_of BitwiseCast" and kind' = "Kind_of BitwiseCast"
      and x = "example_values 0" and x' = "example_values 0" and y = "None" and y' = "None"
      and a = "the (example_values 0)" and b = "the (example_values 3)"]
    typeFor_rules [where pointerType = Int64 and kind = "Kind_of Select" and kind' = "Kind_of Select"
      and x = "example_values 5" and x' = "example_values 5" and y = "example_values 3" and y' = "example_values 3"
      and a = "the (example_values 0)" and b = "the (example_values 3)"]
    typeFor_rules [where pointerType = Int64 and kind = "Kind_of Return" and kind' = "Kind_of Return"
      and x = "example_values 0" and x' = "example_values 0" and y = "None" and y' = "None"
      and a = "the (example_values 0)" and b = "the (example_values 3)"]
  by (simp add: example_defs typeFor_def type_of_child_def)

section \<open>Canonicalization keys\<close>

text \<open>
  C4. The two-operand case of \<^verbatim>\<open>Value::key\<close> lists nine of the eleven comparison
  opcodes: LessEqual and GreaterEqual are not among its labels and reach the default
  label. In the example procedure a LessEqual and a GreaterEqual of two nodes get the
  default key, which is the invalid one, where a LessThan of the same two nodes gets the
  two-operand key of its kind, its type and the indices of its children; and
  \<^verbatim>\<open>typeFor\<close> and \<^verbatim>\<open>effects\<close> do have LessEqual among the comparisons.
\<close>

theorem key_LessEqual_invalid:
  "key example_proc (compare_node LessEqual) = Inr ValueKey_default
   \<and> key example_proc (compare_node GreaterEqual) = Inr ValueKey_default
   \<and> \<not> ValueKey_valid ValueKey_default
   \<and> key example_proc (compare_node LessThan) =
       Inr \<lparr>key_kind = Kind_of LessThan, key_type = Int32, key_u = Indices 10 13 0\<rparr>
   \<and> typeFor Int64 (Kind_of LessEqual) (example_values 0) (example_values 3) = Inr Int32
   \<and> effects Effects_default (compare_node LessEqual) = Inr Effects_default"
  by (simp add: key_def compare_node_def example_defs ValueKey_valid_def ValueKey2_def
      child_index_def typeFor_def effects_def)


section \<open>The in-place replacement protocol: what a replacement leaves\<close>

lemma replaceWith_children_Inr:
  "replaceWith_children chk h this kind type ownr cs = Inr h' \<longleftrightarrow>
     (\<exists>old. proc_values h this = Some old \<and> chk kind (length cs)
        \<and> h' = h\<lparr>proc_values := (proc_values h)(this \<mapsto>
                   \<lparr>m_index = m_index old, m_kind = kind, m_type = type,
                    m_origin = m_origin old, owner = ownr, children = cs,
                    payload = NoPayload\<rparr>)\<rparr>)"
  by (auto simp: replaceWith_children_def Value_ctor_def badKind_def Let_def
      split: option.splits)

lemma replaceWith_children_stable:
  "replaceWith_children chk h this kind type ownr cs = Inr h' \<Longrightarrow> identity_stable h this h'"
  by (auto simp: replaceWith_children_Inr identity_stable_def)

lemma update_block_values:
  "update_block h ownr f = Inr h' \<Longrightarrow> proc_values h' = proc_values h"
  by (auto simp: update_block_def split: option.splits)

lemma identity_stable_values:
  "identity_stable h this h' \<Longrightarrow> proc_values h'' = proc_values h' \<Longrightarrow> identity_stable h this h''"
  by (simp add: identity_stable_def)

lemma replaceWithNopIgnoringType_stable:
  "replaceWithNopIgnoringType chk h this = Inr h' \<Longrightarrow> identity_stable h this h'"
  by (auto simp: replaceWithNopIgnoringType_def replaceWith_def
      split: option.splits dest: replaceWith_children_stable)

lemma replaceWithNop_stable:
  "replaceWithNop chk h this = Inr h' \<Longrightarrow> identity_stable h this h'"
  by (auto simp: replaceWithNop_def split: option.splits if_splits
      dest: replaceWithNopIgnoringType_stable)

lemma replaceWithIdentity_stable:
  "replaceWithIdentity chk h this val = Inr h' \<Longrightarrow> identity_stable h this h'"
  by (auto simp: replaceWithIdentity_def replaceWith_value_def split: option.splits if_splits
      dest: replaceWithNopIgnoringType_stable replaceWith_children_stable)

lemma replaceWithPhi_stable:
  "replaceWithPhi chk h this = Inr h' \<Longrightarrow> identity_stable h this h'"
  by (auto simp: replaceWithPhi_def replaceWith_def split: option.splits if_splits
      dest: replaceWithNop_stable replaceWith_children_stable)

lemma replaceWithJump_stable:
  "replaceWithJump chk h this ownr target = Inr h' \<Longrightarrow> identity_stable h this h'"
  by (auto simp: replaceWithJump_def replaceWith_def split: option.splits if_splits sum.splits
      dest!: replaceWith_children_stable update_block_values intro: identity_stable_values)

lemma replaceWithOops_stable:
  "replaceWithOops chk h this ownr = Inr h' \<Longrightarrow> identity_stable h this h'"
  by (auto simp: replaceWithOops_def replaceWith_def split: option.splits if_splits sum.splits
      dest!: replaceWith_children_stable update_block_values intro: identity_stable_values)

lemma replaceWith_children_observes:
  "replaceWith_children chk h this kind type ownr cs = Inr h' \<Longrightarrow>
   now_observes h this h' kind type cs"
  by (auto simp: replaceWith_children_Inr now_observes_def)

lemma update_block_observes:
  assumes "update_block h' ownr f = Inr h''" and "now_observes h this h' kind type cs"
  shows "now_observes h this h'' kind type cs"
proof -
  from assms(1) have eq: "proc_values h'' = proc_values h'" by (rule update_block_values)
  from assms(2) show ?thesis unfolding now_observes_def eq .
qed

lemma replaceWithNopIgnoringType_observes:
  "replaceWithNopIgnoringType chk h this = Inr h' \<Longrightarrow>
   now_observes h this h' (Kind_of Nop) Void []"
  by (auto simp: replaceWithNopIgnoringType_def replaceWith_def
      split: option.splits dest: replaceWith_children_observes)

lemma replaceWithNop_observes:
  "replaceWithNop chk h this = Inr h' \<Longrightarrow>
   type_at h this = Some Void \<and> now_observes h this h' (Kind_of Nop) Void []"
  by (auto simp: replaceWithNop_def type_at_def split: option.splits if_splits
      dest: replaceWithNopIgnoringType_observes)

lemma replaceWithIdentity_observes:
  "replaceWithIdentity chk h this val = Inr h' \<Longrightarrow>
   type_at h val = type_at h this
   \<and> (type_at h this = Some Void \<longrightarrow> now_observes h this h' (Kind_of Nop) Void [])
   \<and> (\<forall>t. type_at h this = Some t \<and> t \<noteq> Void \<longrightarrow>
          now_observes h this h' (Kind_of Identity) t [val])"
  by (auto simp: replaceWithIdentity_def replaceWith_value_def type_at_def
      split: option.splits if_splits
      dest: replaceWithNopIgnoringType_observes replaceWith_children_observes)

lemma replaceWithPhi_observes:
  "replaceWithPhi chk h this = Inr h' \<Longrightarrow>
   (type_at h this = Some Void \<longrightarrow> now_observes h this h' (Kind_of Nop) Void [])
   \<and> (\<forall>t. type_at h this = Some t \<and> t \<noteq> Void \<longrightarrow>
          now_observes h this h' (Kind_of Phi) t [])"
  by (auto simp: replaceWithPhi_def replaceWith_def type_at_def
      split: option.splits if_splits
      dest: replaceWithNop_observes replaceWith_children_observes)

lemma replaceWithJump_observes:
  "replaceWithJump chk h this ownr target = Inr h' \<Longrightarrow>
   now_observes h this h' (Kind_of Jump) Void []"
  by (auto simp: replaceWithJump_def replaceWith_def
      split: option.splits if_splits sum.splits
      dest!: replaceWith_children_observes intro: update_block_observes)

lemma replaceWithOops_observes:
  "replaceWithOops chk h this ownr = Inr h' \<Longrightarrow>
   now_observes h this h' (Kind_of Oops) Void []"
  by (auto simp: replaceWithOops_def replaceWith_def
      split: option.splits if_splits sum.splits
      dest!: replaceWith_children_observes intro: update_block_observes)

text \<open>
  C1. Whenever one of the replacement operations on the node at \<open>this\<close> returns
  (\<^verbatim>\<open>replaceWith\<close> with and without a child, \<^verbatim>\<open>replaceWithIdentity\<close>, \<^verbatim>\<open>replaceWithNop\<close>,
  \<^verbatim>\<open>replaceWithNopIgnoringType\<close>, \<^verbatim>\<open>replaceWithPhi\<close>, and both overloads of
  \<^verbatim>\<open>replaceWithJump\<close> and \<^verbatim>\<open>replaceWithOops\<close>), the node at every address has the index it
  had before and every other node is unchanged, so a reference to the node, by address
  or by index, resolves to the same node; and that node now has the new opcode, type
  and children of the operation: those given to \<^verbatim>\<open>replaceWith\<close>; a Nop of type Void
  without children after \<^verbatim>\<open>replaceWithNop\<close> and \<^verbatim>\<open>replaceWithNopIgnoringType\<close>; after
  \<^verbatim>\<open>replaceWithIdentity\<close> that Nop when the node's type was Void and else an Identity
  of the node's type with the target as its one child; after \<^verbatim>\<open>replaceWithPhi\<close> that
  Nop when the type was Void and else a Phi of the node's type without children; a Jump
  of type Void without children after \<^verbatim>\<open>replaceWithJump\<close> and an Oops of type Void
  without children after \<^verbatim>\<open>replaceWithOops\<close>. On a node that is there,
  \<^verbatim>\<open>replaceWithNopIgnoringType\<close> and \<^verbatim>\<open>replaceWithPhi\<close> return, and \<^verbatim>\<open>replaceWithNop\<close>
  returns when the type is Void and fails its release assertion otherwise, when the
  constructor recognizes Nop and Phi without children.
\<close>

theorem replacement_identity_stable:
  "(replaceWith chk h this kind type ownr = Inr h' \<longrightarrow>
      identity_stable h this h' \<and> now_observes h this h' kind type [])
   \<and> (replaceWith_value chk h this kind type ownr val = Inr h' \<longrightarrow>
      identity_stable h this h' \<and> now_observes h this h' kind type [val])
   \<and> (replaceWithIdentity chk h this val = Inr h' \<longrightarrow>
      identity_stable h this h'
      \<and> type_at h val = type_at h this
      \<and> (type_at h this = Some Void \<longrightarrow> now_observes h this h' (Kind_of Nop) Void [])
      \<and> (\<forall>t. type_at h this = Some t \<and> t \<noteq> Void \<longrightarrow>
             now_observes h this h' (Kind_of Identity) t [val]))
   \<and> (replaceWithNop chk h this = Inr h' \<longrightarrow>
      identity_stable h this h' \<and> type_at h this = Some Void
      \<and> now_observes h this h' (Kind_of Nop) Void [])
   \<and> (replaceWithNopIgnoringType chk h this = Inr h' \<longrightarrow>
      identity_stable h this h' \<and> now_observes h this h' (Kind_of Nop) Void [])
   \<and> (replaceWithPhi chk h this = Inr h' \<longrightarrow>
      identity_stable h this h'
      \<and> (type_at h this = Some Void \<longrightarrow> now_observes h this h' (Kind_of Nop) Void [])
      \<and> (\<forall>t. type_at h this = Some t \<and> t \<noteq> Void \<longrightarrow>
             now_observes h this h' (Kind_of Phi) t []))
   \<and> (replaceWithJump chk h this ownr target = Inr h' \<longrightarrow>
      identity_stable h this h' \<and> now_observes h this h' (Kind_of Jump) Void [])
   \<and> (replaceWithJump_target chk h this target = Inr h' \<longrightarrow>
      identity_stable h this h' \<and> now_observes h this h' (Kind_of Jump) Void [])
   \<and> (replaceWithOops chk h this ownr = Inr h' \<longrightarrow>
      identity_stable h this h' \<and> now_observes h this h' (Kind_of Oops) Void [])
   \<and> (replaceWithOops_member chk h this = Inr h' \<longrightarrow>
      identity_stable h this h' \<and> now_observes h this h' (Kind_of Oops) Void [])
   \<and> (proc_values h this = Some v \<and> chk (Kind_of Nop) 0 \<longrightarrow>
        (\<exists>h''. replaceWithNopIgnoringType chk h this = Inr h'')
      \<and> (m_type v = Void \<longrightarrow> (\<exists>h''. replaceWithNop chk h this = Inr h''))
      \<and> (m_type v \<noteq> Void \<longrightarrow> replaceWithNop chk h this = Inl ReleaseAssert)
      \<and> (chk (Kind_of Phi) 0 \<longrightarrow> (\<exists>h''. replaceWithPhi chk h this = Inr h'')))"
proof -
  have rw: "replaceWith chk h this kind type ownr = Inr h' \<longrightarrow>
      identity_stable h this h' \<and> now_observes h this h' kind type []"
    by (auto simp: replaceWith_def
        dest: replaceWith_children_stable replaceWith_children_observes)
  have rv: "replaceWith_value chk h this kind type ownr val = Inr h' \<longrightarrow>
      identity_stable h this h' \<and> now_observes h this h' kind type [val]"
    by (auto simp: replaceWith_value_def
        dest: replaceWith_children_stable replaceWith_children_observes)
  have ri: "replaceWithIdentity chk h this val = Inr h' \<longrightarrow>
      identity_stable h this h'
      \<and> type_at h val = type_at h this
      \<and> (type_at h this = Some Void \<longrightarrow> now_observes h this h' (Kind_of Nop) Void [])
      \<and> (\<forall>t. type_at h this = Some t \<and> t \<noteq> Void \<longrightarrow>
             now_observes h this h' (Kind_of Identity) t [val])"
    using replaceWithIdentity_stable [of chk h this val h']
      replaceWithIdentity_observes [of chk h this val h']
    by blast
  have rn: "replaceWithNop chk h this = Inr h' \<longrightarrow>
      identity_stable h this h' \<and> type_at h this = Some Void
      \<and> now_observes h this h' (Kind_of Nop) Void []"
    using replaceWithNop_stable [of chk h this h'] replaceWithNop_observes [of chk h this h']
    by blast
  have rt: "replaceWithNopIgnoringType chk h this = Inr h' \<longrightarrow>
      identity_stable h this h' \<and> now_observes h this h' (Kind_of Nop) Void []"
    using replaceWithNopIgnoringType_stable [of chk h this h']
      replaceWithNopIgnoringType_observes [of chk h this h']
    by blast
  have rp: "replaceWithPhi chk h this = Inr h' \<longrightarrow>
      identity_stable h this h'
      \<and> (type_at h this = Some Void \<longrightarrow> now_observes h this h' (Kind_of Nop) Void [])
      \<and> (\<forall>t. type_at h this = Some t \<and> t \<noteq> Void \<longrightarrow>
             now_observes h this h' (Kind_of Phi) t [])"
    using replaceWithPhi_stable [of chk h this h'] replaceWithPhi_observes [of chk h this h']
    by blast
  have rj: "replaceWithJump chk h this ownr target = Inr h' \<longrightarrow>
      identity_stable h this h' \<and> now_observes h this h' (Kind_of Jump) Void []"
    using replaceWithJump_stable [of chk h this ownr target h']
      replaceWithJump_observes [of chk h this ownr target h']
    by blast
  have rjt: "replaceWithJump_target chk h this target = Inr h' \<longrightarrow>
      identity_stable h this h' \<and> now_observes h this h' (Kind_of Jump) Void []"
    by (auto simp: replaceWithJump_target_def split: option.splits
        dest: replaceWithJump_stable replaceWithJump_observes)
  have ro: "replaceWithOops chk h this ownr = Inr h' \<longrightarrow>
      identity_stable h this h' \<and> now_observes h this h' (Kind_of Oops) Void []"
    using replaceWithOops_stable [of chk h this ownr h']
      replaceWithOops_observes [of chk h this ownr h']
    by blast
  have rom: "replaceWithOops_member chk h this = Inr h' \<longrightarrow>
      identity_stable h this h' \<and> now_observes h this h' (Kind_of Oops) Void []"
    by (auto simp: replaceWithOops_member_def split: option.splits
        dest: replaceWithOops_stable replaceWithOops_observes)
  have ret: "proc_values h this = Some v \<and> chk (Kind_of Nop) 0 \<longrightarrow>
        (\<exists>h''. replaceWithNopIgnoringType chk h this = Inr h'')
      \<and> (m_type v = Void \<longrightarrow> (\<exists>h''. replaceWithNop chk h this = Inr h''))
      \<and> (m_type v \<noteq> Void \<longrightarrow> replaceWithNop chk h this = Inl ReleaseAssert)
      \<and> (chk (Kind_of Phi) 0 \<longrightarrow> (\<exists>h''. replaceWithPhi chk h this = Inr h''))"
    by (auto simp: replaceWithNopIgnoringType_def replaceWithNop_def replaceWithPhi_def
        replaceWith_def replaceWith_children_def Value_ctor_def)
  show ?thesis
    by (intro conjI) (rule rw rv ri rn rt rp rj rjt ro rom ret)+
qed

theorem replacement_identity_stable_witness:
  "replaceWithIdentity checkOpcode_example example_proc 3 0 =
     Inr (example_proc\<lparr>proc_values := example_values(3 \<mapsto>
            \<lparr>m_index = 13, m_kind = Kind_of Identity, m_type = Int32, m_origin = 7,
             owner = Some 0, children = [0], payload = NoPayload\<rparr>)\<rparr>)
   \<and> identity_stable example_proc 3
        (example_proc\<lparr>proc_values := example_values(3 \<mapsto>
            \<lparr>m_index = 13, m_kind = Kind_of Identity, m_type = Int32, m_origin = 7,
             owner = Some 0, children = [0], payload = NoPayload\<rparr>)\<rparr>)
   \<and> now_observes example_proc 3
        (example_proc\<lparr>proc_values := example_values(3 \<mapsto>
            \<lparr>m_index = 13, m_kind = Kind_of Identity, m_type = Int32, m_origin = 7,
             owner = Some 0, children = [0], payload = NoPayload\<rparr>)\<rparr>)
        (Kind_of Identity) Int32 [0]
   \<and> map_option m_index (example_values 3) = Some 13
   \<and> replaceWithPhi checkOpcode_example example_proc 3 =
     Inr (example_proc\<lparr>proc_values := example_values(3 \<mapsto>
            \<lparr>m_index = 13, m_kind = Kind_of Phi, m_type = Int32, m_origin = 7,
             owner = Some 0, children = [], payload = NoPayload\<rparr>)\<rparr>)
   \<and> now_observes example_proc 3
        (example_proc\<lparr>proc_values := example_values(3 \<mapsto>
            \<lparr>m_index = 13, m_kind = Kind_of Phi, m_type = Int32, m_origin = 7,
             owner = Some 0, children = [], payload = NoPayload\<rparr>)\<rparr>)
        (Kind_of Phi) Int32 []"
proof -
  have run: "replaceWithIdentity checkOpcode_example example_proc 3 0 =
     Inr (example_proc\<lparr>proc_values := example_values(3 \<mapsto>
            \<lparr>m_index = 13, m_kind = Kind_of Identity, m_type = Int32, m_origin = 7,
             owner = Some 0, children = [0], payload = NoPayload\<rparr>)\<rparr>)"
    by (simp add: replaceWithIdentity_def replaceWith_value_def replaceWith_children_def
        Value_ctor_def example_defs)
  have phi: "replaceWithPhi checkOpcode_example example_proc 3 =
     Inr (example_proc\<lparr>proc_values := example_values(3 \<mapsto>
            \<lparr>m_index = 13, m_kind = Kind_of Phi, m_type = Int32, m_origin = 7,
             owner = Some 0, children = [], payload = NoPayload\<rparr>)\<rparr>)"
    by (simp add: replaceWithPhi_def replaceWith_def replaceWith_children_def
        Value_ctor_def example_defs)
  have t: "type_at example_proc 3 = Some Int32 \<and> Int32 \<noteq> Void"
    by (simp add: type_at_def example_proc_def example_values_def)
  have "identity_stable example_proc 3
        (example_proc\<lparr>proc_values := example_values(3 \<mapsto>
            \<lparr>m_index = 13, m_kind = Kind_of Identity, m_type = Int32, m_origin = 7,
             owner = Some 0, children = [0], payload = NoPayload\<rparr>)\<rparr>)
     \<and> now_observes example_proc 3
        (example_proc\<lparr>proc_values := example_values(3 \<mapsto>
            \<lparr>m_index = 13, m_kind = Kind_of Identity, m_type = Int32, m_origin = 7,
             owner = Some 0, children = [0], payload = NoPayload\<rparr>)\<rparr>)
        (Kind_of Identity) Int32 [0]"
    using run t
      replacement_identity_stable [where chk = checkOpcode_example and h = example_proc
        and this = 3 and val = 0
        and h' = "example_proc\<lparr>proc_values := example_values(3 \<mapsto>
            \<lparr>m_index = 13, m_kind = Kind_of Identity, m_type = Int32, m_origin = 7,
             owner = Some 0, children = [0], payload = NoPayload\<rparr>)\<rparr>"]
    by blast
  moreover have "now_observes example_proc 3
        (example_proc\<lparr>proc_values := example_values(3 \<mapsto>
            \<lparr>m_index = 13, m_kind = Kind_of Phi, m_type = Int32, m_origin = 7,
             owner = Some 0, children = [], payload = NoPayload\<rparr>)\<rparr>)
        (Kind_of Phi) Int32 []"
    using phi t
      replacement_identity_stable [where chk = checkOpcode_example and h = example_proc
        and this = 3
        and h' = "example_proc\<lparr>proc_values := example_values(3 \<mapsto>
            \<lparr>m_index = 13, m_kind = Kind_of Phi, m_type = Int32, m_origin = 7,
             owner = Some 0, children = [], payload = NoPayload\<rparr>)\<rparr>"]
    by blast
  ultimately show ?thesis
    using run phi by (simp add: example_values_def)
qed

text \<open>
  C2. \<^verbatim>\<open>replaceWithIdentity(target)\<close> on a node \<open>v\<close> with a target \<open>tv\<close>: when the two
  types differ the release assertion fails. When they are equal and the type is Void,
  the node becomes a Nop of type Void without children; when they are equal and not
  Void, it becomes an Identity of its own type whose one child is the target. In both
  cases the index and the owner are those of \<open>v\<close>, and the constructor must recognize
  the new opcode with that number of children.
\<close>

theorem replaceWithIdentity_contract:
  assumes "proc_values h this = Some v" and "proc_values h val = Some tv"
  shows "(m_type tv \<noteq> m_type v \<longrightarrow> replaceWithIdentity chk h this val = Inl ReleaseAssert)
   \<and> (m_type tv = m_type v \<and> m_type v = Void \<and> chk (Kind_of Nop) 0 \<longrightarrow>
        replaceWithIdentity chk h this val =
          Inr (h\<lparr>proc_values := (proc_values h)(this \<mapsto>
                 \<lparr>m_index = m_index v, m_kind = Kind_of Nop, m_type = Void,
                  m_origin = m_origin v, owner = owner v, children = [],
                  payload = NoPayload\<rparr>)\<rparr>))
   \<and> (m_type tv = m_type v \<and> m_type v \<noteq> Void \<and> chk (Kind_of Identity) 1 \<longrightarrow>
        replaceWithIdentity chk h this val =
          Inr (h\<lparr>proc_values := (proc_values h)(this \<mapsto>
                 \<lparr>m_index = m_index v, m_kind = Kind_of Identity, m_type = m_type v,
                  m_origin = m_origin v, owner = owner v, children = [val],
                  payload = NoPayload\<rparr>)\<rparr>))"
  using assms
  by (auto simp: replaceWithIdentity_def replaceWithNopIgnoringType_def replaceWith_def
      replaceWith_value_def replaceWith_children_def Value_ctor_def)

theorem replaceWithIdentity_contract_witness:
  "replaceWithIdentity checkOpcode_example example_proc 3 4 = Inl ReleaseAssert
   \<and> replaceWithIdentity checkOpcode_example example_proc 4 5 =
       Inr (example_proc\<lparr>proc_values := example_values(4 \<mapsto>
            \<lparr>m_index = 14, m_kind = Kind_of Nop, m_type = Void, m_origin = 9,
             owner = Some 0, children = [], payload = NoPayload\<rparr>)\<rparr>)
   \<and> replaceWithIdentity checkOpcode_example example_proc 3 0 =
       Inr (example_proc\<lparr>proc_values := example_values(3 \<mapsto>
            \<lparr>m_index = 13, m_kind = Kind_of Identity, m_type = Int32, m_origin = 7,
             owner = Some 0, children = [0], payload = NoPayload\<rparr>)\<rparr>)"
proof -
  have v: "proc_values example_proc 3 = Some
             \<lparr>m_index = 13, m_kind = Kind_of Add, m_type = Int32, m_origin = 7,
              owner = Some 0, children = [2, 0], payload = NoPayload\<rparr>"
    "proc_values example_proc 4 = Some
             \<lparr>m_index = 14, m_kind = Kind_of Store, m_type = Void, m_origin = 9,
              owner = Some 0, children = [3, 0],
              payload = MemoryValue \<lparr>m_begin = 8, m_end = 16\<rparr> HeapRange_default False\<rparr>"
    "proc_values example_proc 5 = Some
             \<lparr>m_index = 15, m_kind = Kind_of Branch, m_type = Void, m_origin = 4,
              owner = Some 0, children = [3], payload = NoPayload\<rparr>"
    "proc_values example_proc 0 = Some
             \<lparr>m_index = 10, m_kind = Kind_of Const32, m_type = Int32, m_origin = 1,
              owner = Some 0, children = [], payload = Const32Value 5\<rparr>"
    by (simp_all add: example_proc_def example_values_def)
  show ?thesis
    using replaceWithIdentity_contract [OF v(1) v(2), of checkOpcode_example]
      replaceWithIdentity_contract [OF v(2) v(3), of checkOpcode_example]
      replaceWithIdentity_contract [OF v(1) v(4), of checkOpcode_example]
    by (simp add: checkOpcode_example_def Kind_of_def example_proc_def)
qed

text \<open>
  C6, as the source has it. The reconstructed node is built from the new kind and type
  and from the member \<^verbatim>\<open>m_origin\<close> of the node it replaces: in the example, replacing the
  Add of origin 7 and the Store of origin 9 by a Nop gives nodes of origin 7 and 9.
\<close>

theorem replaceWith_keeps_origin:
  "map_option m_origin (proc_values example_proc 3) = Some 7
   \<and> replaceWith checkOpcode_example example_proc 3 (Kind_of Nop) Void None =
       Inr (example_proc\<lparr>proc_values := example_values(3 \<mapsto>
              \<lparr>m_index = 13, m_kind = Kind_of Nop, m_type = Void, m_origin = 7,
               owner = None, children = [], payload = NoPayload\<rparr>)\<rparr>)
   \<and> map_option m_origin (proc_values example_proc 4) = Some 9
   \<and> replaceWith checkOpcode_example example_proc 4 (Kind_of Nop) Void None =
       Inr (example_proc\<lparr>proc_values := example_values(4 \<mapsto>
              \<lparr>m_index = 14, m_kind = Kind_of Nop, m_type = Void, m_origin = 9,
               owner = None, children = [], payload = NoPayload\<rparr>)\<rparr>)"
  by (simp add: replaceWith_def replaceWith_children_def Value_ctor_def example_defs)

text \<open>
  C6, amended. When the constructor recognizes the new kind with no child
  (respectively one child), \<^verbatim>\<open>replaceWith\<close> returns, and the node at \<open>this\<close> then has
  the index and the origin of the node it replaces, the owner, kind and type given, no
  children (respectively the one child given) and no payload of a subclass. The
  opcode, flag bits, type, children, payload and owner of the replaced node do not
  occur in the result, and no other node changes.
\<close>

theorem replaceWith_result:
  assumes "proc_values h this = Some old"
  shows "(chk kind 0 \<longrightarrow>
          replaceWith chk h this kind type ownr =
          Inr (h\<lparr>proc_values := (proc_values h)(this \<mapsto>
                 \<lparr>m_index = m_index old, m_kind = kind, m_type = type,
                  m_origin = m_origin old, owner = ownr, children = [],
                  payload = NoPayload\<rparr>)\<rparr>))
     \<and> (chk kind 1 \<longrightarrow>
          replaceWith_value chk h this kind type ownr val =
          Inr (h\<lparr>proc_values := (proc_values h)(this \<mapsto>
                 \<lparr>m_index = m_index old, m_kind = kind, m_type = type,
                  m_origin = m_origin old, owner = ownr, children = [val],
                  payload = NoPayload\<rparr>)\<rparr>))"
  using assms
  by (auto simp: replaceWith_def replaceWith_value_def replaceWith_children_def Value_ctor_def)

theorem replaceWith_result_witness:
  "replaceWith checkOpcode_example example_proc 4 (Kind_of Phi) Int64 None =
     Inr (example_proc\<lparr>proc_values := example_values(4 \<mapsto>
            \<lparr>m_index = 14, m_kind = Kind_of Phi, m_type = Int64, m_origin = 9,
             owner = None, children = [], payload = NoPayload\<rparr>)\<rparr>)
   \<and> replaceWith_value checkOpcode_example example_proc 4 (Kind_of Identity) Int32 (Some 1) 0 =
     Inr (example_proc\<lparr>proc_values := example_values(4 \<mapsto>
            \<lparr>m_index = 14, m_kind = Kind_of Identity, m_type = Int32, m_origin = 9,
             owner = Some 1, children = [0], payload = NoPayload\<rparr>)\<rparr>)"
proof -
  have v: "proc_values example_proc 4 = Some
             \<lparr>m_index = 14, m_kind = Kind_of Store, m_type = Void, m_origin = 9,
              owner = Some 0, children = [3, 0],
              payload = MemoryValue \<lparr>m_begin = 8, m_end = 16\<rparr> HeapRange_default False\<rparr>"
    by (simp add: example_proc_def example_values_def)
  show ?thesis
    using replaceWith_result [OF v, of checkOpcode_example "Kind_of Phi" Int64 None]
      replaceWith_result [OF v, of checkOpcode_example "Kind_of Identity" Int32 "Some 1" 0]
    by (simp add: checkOpcode_example_def Kind_of_def example_proc_def)
qed

text \<open>
  C8. \<^verbatim>\<open>replaceWithJump(owner, target)\<close> and \<^verbatim>\<open>replaceWithOops(owner)\<close> end in a fatal
  result whenever \<open>this\<close> is not the last node of the block \<open>owner\<close>, and in the failed
  release assertion when that block has a last node other than \<open>this\<close>. When \<open>this\<close> is
  the last node, the node becomes a Jump (respectively an Oops) of type Void without
  children, with its index, and the successors of the block become the one target
  (respectively none). The overloads without the block pass the member \<open>owner\<close>.
\<close>

theorem replaceWith_terminator_contract:
  "(block_last h ownr \<noteq> Inr this \<longrightarrow>
      isl (replaceWithJump chk h this ownr target) \<and> isl (replaceWithOops chk h this ownr))
   \<and> (proc_blocks h b = Some blk \<and> m_values blk \<noteq> [] \<and> last (m_values blk) \<noteq> this \<longrightarrow>
        replaceWithJump chk h this (Some b) target = Inl ReleaseAssert
      \<and> replaceWithOops chk h this (Some b) = Inl ReleaseAssert)
   \<and> (proc_blocks h b = Some blk \<and> m_values blk \<noteq> [] \<and> last (m_values blk) = this
        \<and> proc_values h this = Some v \<and> chk (Kind_of Jump) 0 \<longrightarrow>
        replaceWithJump chk h this (Some b) target =
          Inr \<lparr>proc_values = (proc_values h)(this \<mapsto>
                 \<lparr>m_index = m_index v, m_kind = Kind_of Jump, m_type = Void,
                  m_origin = m_origin v, owner = owner v, children = [],
                  payload = NoPayload\<rparr>),
               proc_blocks = (proc_blocks h)(b \<mapsto> blk\<lparr>m_successors := [target]\<rparr>)\<rparr>)
   \<and> (proc_blocks h b = Some blk \<and> m_values blk \<noteq> [] \<and> last (m_values blk) = this
        \<and> proc_values h this = Some v \<and> chk (Kind_of Oops) 0 \<longrightarrow>
        replaceWithOops chk h this (Some b) =
          Inr \<lparr>proc_values = (proc_values h)(this \<mapsto>
                 \<lparr>m_index = m_index v, m_kind = Kind_of Oops, m_type = Void,
                  m_origin = m_origin v, owner = owner v, children = [],
                  payload = NoPayload\<rparr>),
               proc_blocks = (proc_blocks h)(b \<mapsto> blk\<lparr>m_successors := []\<rparr>)\<rparr>)
   \<and> (proc_values h this = Some v \<longrightarrow>
        replaceWithJump_target chk h this target = replaceWithJump chk h this (owner v) target
      \<and> replaceWithOops_member chk h this = replaceWithOops chk h this (owner v))"
  by (auto simp: replaceWithJump_def replaceWithOops_def block_last_def replaceWith_def
      replaceWith_children_def Value_ctor_def update_block_def setSuccessors_def
      clearSuccessors_def replaceWithJump_target_def replaceWithOops_member_def
      split: sum.splits option.splits if_splits)

theorem replaceWith_terminator_contract_witness:
  "replaceWithJump checkOpcode_example example_proc 3 (Some 0)
       \<lparr>fb_block = 2, fb_frequency = Normal\<rparr> = Inl ReleaseAssert
   \<and> replaceWithOops checkOpcode_example example_proc 3 (Some 0) = Inl ReleaseAssert
   \<and> isl (replaceWithJump checkOpcode_example example_proc 5 (Some 1)
             \<lparr>fb_block = 2, fb_frequency = Normal\<rparr>)
   \<and> replaceWithJump checkOpcode_example example_proc 5 (Some 0)
       \<lparr>fb_block = 2, fb_frequency = Normal\<rparr> =
       Inr \<lparr>proc_values = example_values(5 \<mapsto>
              \<lparr>m_index = 15, m_kind = Kind_of Jump, m_type = Void, m_origin = 4,
               owner = Some 0, children = [], payload = NoPayload\<rparr>),
            proc_blocks = example_blocks(0 \<mapsto>
              \<lparr>m_values = [0, 1, 2, 3, 4, 5],
               m_successors = [\<lparr>fb_block = 2, fb_frequency = Normal\<rparr>]\<rparr>)\<rparr>
   \<and> replaceWithOops_member checkOpcode_example example_proc 5 =
       Inr \<lparr>proc_values = example_values(5 \<mapsto>
              \<lparr>m_index = 15, m_kind = Kind_of Oops, m_type = Void, m_origin = 4,
               owner = Some 0, children = [], payload = NoPayload\<rparr>),
            proc_blocks = example_blocks(0 \<mapsto>
              \<lparr>m_values = [0, 1, 2, 3, 4, 5], m_successors = []\<rparr>)\<rparr>"
proof -
  have b: "proc_blocks example_proc 0 = Some
             \<lparr>m_values = [0, 1, 2, 3, 4, 5],
              m_successors = [\<lparr>fb_block = 1, fb_frequency = Normal\<rparr>,
                              \<lparr>fb_block = 2, fb_frequency = Rare\<rparr>]\<rparr>"
    and l: "block_last example_proc (Some 1) \<noteq> Inr 5"
    and v: "proc_values example_proc 5 = Some
             \<lparr>m_index = 15, m_kind = Kind_of Branch, m_type = Void, m_origin = 4,
              owner = Some 0, children = [3], payload = NoPayload\<rparr>"
    by (simp_all add: example_proc_def example_values_def example_blocks_def block_last_def)
  show ?thesis
    using b l v
      replaceWith_terminator_contract [where chk = checkOpcode_example and h = example_proc
        and this = 3 and b = 0 and ownr = "Some 0"
        and target = "\<lparr>fb_block = 2, fb_frequency = Normal\<rparr>"
        and blk = "\<lparr>m_values = [0, 1, 2, 3, 4, 5],
              m_successors = [\<lparr>fb_block = 1, fb_frequency = Normal\<rparr>,
                              \<lparr>fb_block = 2, fb_frequency = Rare\<rparr>]\<rparr>"
        and v = "\<lparr>m_index = 13, m_kind = Kind_of Add, m_type = Int32, m_origin = 7,
              owner = Some 0, children = [2, 0], payload = NoPayload\<rparr>"]
      replaceWith_terminator_contract [where chk = checkOpcode_example and h = example_proc
        and this = 5 and b = 0 and ownr = "Some 1"
        and target = "\<lparr>fb_block = 2, fb_frequency = Normal\<rparr>"
        and blk = "\<lparr>m_values = [0, 1, 2, 3, 4, 5],
              m_successors = [\<lparr>fb_block = 1, fb_frequency = Normal\<rparr>,
                              \<lparr>fb_block = 2, fb_frequency = Rare\<rparr>]\<rparr>"
        and v = "\<lparr>m_index = 15, m_kind = Kind_of Branch, m_type = Void, m_origin = 4,
              owner = Some 0, children = [3], payload = NoPayload\<rparr>"]
    by (simp add: checkOpcode_example_def Kind_of_def example_proc_def)
qed

section \<open>Folding chains of Identity nodes\<close>

lemma identityChain_0:
  "identityChain h a 0 d \<longleftrightarrow> a = d \<and> (\<exists>v. proc_values h a = Some v \<and> opcode v \<noteq> Identity)"
  by (auto simp: identityChain.simps split: option.splits)

lemma identityChain_Suc:
  "identityChain h a (Suc n) d \<longleftrightarrow>
     (\<exists>v c cs. proc_values h a = Some v \<and> opcode v = Identity \<and> children v = c # cs
        \<and> identityChain h c n d)"
  by (auto simp: identityChain.simps split: option.splits list.splits)

lemma foldIdentity_loop_chain:
  "identityChain h a n d \<Longrightarrow> foldIdentity_loop h a k = Some (Inr (d, k + n))"
proof (induction n arbitrary: a k)
  case 0
  then obtain v where "a = d" "proc_values h a = Some v" "opcode v \<noteq> Identity"
    by (auto simp: identityChain_0)
  then show ?case
    by (subst foldIdentity_loop.simps) simp
next
  case (Suc n)
  then obtain v c cs where v: "proc_values h a = Some v" "opcode v = Identity"
    "children v = c # cs" and c: "identityChain h c n d"
    by (auto simp: identityChain_Suc)
  from Suc.IH [OF c, of "Suc k"] v show ?case
    by (subst foldIdentity_loop.simps) (simp add: child_def)
qed

lemma foldIdentity_chain:
  "identityChain h a n d \<Longrightarrow> foldIdentity h a = Some (Inr d)"
  by (simp add: foldIdentity_def foldIdentity_loop_chain [where k = 0])

lemma identityChain_unique:
  assumes "identityChain h a n d" and "identityChain h a m e"
  shows "d = e \<and> n = m"
  using foldIdentity_loop_chain [OF assms(1), of 0] foldIdentity_loop_chain [OF assms(2), of 0]
  by simp

lemma identityChain_target:
  "identityChain h a n d \<Longrightarrow> \<exists>v. proc_values h d = Some v \<and> opcode v \<noteq> Identity"
proof (induction n arbitrary: a)
  case 0
  then show ?case by (auto simp: identityChain_0)
next
  case (Suc n)
  then show ?case by (auto simp: identityChain_Suc)
qed

lemma identityChain_isIdentity:
  "identityChain h a n d \<Longrightarrow> isIdentity h a \<longleftrightarrow> 0 < n"
  by (cases n) (auto simp: identityChain_0 identityChain_Suc isIdentity_def)

lemma isIdentity_set_children:
  "proc_values h this = Some v \<Longrightarrow> isIdentity (set_children h this v cs) a = isIdentity h a"
  by (simp add: isIdentity_def set_children_def opcode_def)

text \<open>
  Writing the folded child at position \<open>i\<close> of the node at \<open>this\<close> leaves every chain
  its end: a chain that passes through \<open>this\<close> is shorter afterwards.
\<close>

lemma identityChain_set_children:
  assumes tv: "proc_values h this = Some v"
    and i: "i < length (children v)"
    and d: "identityChain h (children v ! i) m d"
    and a: "identityChain h a n e"
  shows "\<exists>n'. identityChain (set_children h this v ((children v)[i := d])) a n' e"
  using a
proof (induction n arbitrary: a)
  case 0
  with tv show ?case
    by (intro exI [of _ 0]) (auto simp: identityChain_0 set_children_def opcode_def)
next
  case (Suc n)
  then obtain w c cs where w: "proc_values h a = Some w" "opcode w = Identity"
    "children w = c # cs" and c: "identityChain h c n e"
    by (auto simp: identityChain_Suc)
  from Suc.IH [OF c] obtain n' where
    n': "identityChain (set_children h this v ((children v)[i := d])) c n' e" ..
  show ?case
  proof (cases "a = this \<and> i = 0")
    case False
    with w tv i have
      "\<exists>cs'. children (the (proc_values (set_children h this v ((children v)[i := d])) a)) = c # cs'"
      by (cases i) (auto simp: set_children_def)
    with w tv n' show ?thesis
      by (intro exI [of _ "Suc n'"]) (auto simp: identityChain_Suc set_children_def opcode_def)
  next
    case True
    with w tv have vw: "w = v" by simp
    with True w d have "identityChain h c m d" by simp
    with c have de: "d = e" by (auto dest: identityChain_unique)
    from identityChain_target [OF c] obtain u where
      u: "proc_values h e = Some u" "opcode u \<noteq> Identity" by blast
    with w True tv have "e \<noteq> this" by auto
    with u have "identityChain (set_children h this v ((children v)[i := d])) e 0 e"
      by (simp add: identityChain_0 set_children_def)
    with True w tv vw de show ?thesis
      by (intro exI [of _ "Suc 0"]) (auto simp: identityChain_Suc set_children_def opcode_def)
  qed
qed

lemma set_children_twice:
  "set_children (set_children h this v cs) this (v\<lparr>children := cs\<rparr>) cs' = set_children h this v cs'"
  by (simp add: set_children_def)

lemma set_children_same:
  "proc_values h this = Some v \<Longrightarrow> set_children h this v (children v) = h"
  by (simp add: set_children_def fun_upd_idem)


text \<open>
  The loop of \<^verbatim>\<open>performSubstitution\<close> over distinct positions \<open>js\<close> of the child array,
  when the child at each of them heads a chain: it returns, the children at the
  positions in \<open>js\<close> are the ends of their chains, the others are untouched, and the
  flag is set when one of the children was an Identity.
\<close>

lemma performSubstitution_loop_chains:
  assumes "proc_values h this = Some v"
    and "distinct js"
    and "\<forall>j \<in> set js. j < length (children v)"
    and "\<forall>j \<in> set js. \<exists>n d. identityChain h (children v ! j) n d"
  shows "\<exists>cs'. performSubstitution_loop h this js res =
            Some (Inr (set_children h this v cs',
                       res \<or> (\<exists>j \<in> set js. isIdentity h (children v ! j))))
          \<and> length cs' = length (children v)
          \<and> (\<forall>j \<in> set js. \<exists>n. identityChain h (children v ! j) n (cs' ! j))
          \<and> (\<forall>j. j \<notin> set js \<longrightarrow> cs' ! j = children v ! j)"
  using assms
proof (induction js arbitrary: h v res)
  case Nil
  then show ?case
    by (intro exI [of _ "children v"]) (simp add: set_children_same)
next
  case (Cons i js)
  let ?c = "children v ! i"
  from Cons.prems obtain n d where i: "i < length (children v)" and d: "identityChain h ?c n d"
    by auto
  from d have fold: "foldIdentity h ?c = Some (Inr d)" by (rule foldIdentity_chain)
  from d obtain cv where cv: "proc_values h ?c = Some cv"
    by (cases n) (auto simp: identityChain_0 identityChain_Suc)
  from d cv have idn: "opcode cv = Identity \<longleftrightarrow> isIdentity h ?c"
    by (simp add: isIdentity_def)
  from Cons.prems have inotin: "i \<notin> set js" and dist: "distinct js" by simp_all
  show ?case
  proof (cases "isIdentity h ?c")
    case False
    with d have "n = 0" by (simp add: identityChain_isIdentity)
    with d have dc: "d = ?c" by (simp add: identityChain_0)
    from Cons.prems have
      "\<exists>cs'. performSubstitution_loop h this js res =
            Some (Inr (set_children h this v cs',
                       res \<or> (\<exists>j \<in> set js. isIdentity h (children v ! j))))
          \<and> length cs' = length (children v)
          \<and> (\<forall>j \<in> set js. \<exists>n. identityChain h (children v ! j) n (cs' ! j))
          \<and> (\<forall>j. j \<notin> set js \<longrightarrow> cs' ! j = children v ! j)"
      by (intro Cons.IH) auto
    then obtain cs' where cs': "performSubstitution_loop h this js res =
            Some (Inr (set_children h this v cs',
                       res \<or> (\<exists>j \<in> set js. isIdentity h (children v ! j))))"
      "length cs' = length (children v)"
      "\<forall>j \<in> set js. \<exists>n. identityChain h (children v ! j) n (cs' ! j)"
      "\<forall>j. j \<notin> set js \<longrightarrow> cs' ! j = children v ! j"
      by blast
    from cs' inotin have "cs' ! i = ?c" by simp
    with d dc \<open>n = 0\<close> have "identityChain h ?c 0 (cs' ! i)" by simp
    with cs' Cons.prems(1) i cv idn False show ?thesis
      by (intro exI [of _ cs']) (auto simp: child_def)
  next
    case True
    let ?v' = "v\<lparr>children := (children v)[i := d]\<rparr>"
    let ?h' = "set_children h this v ((children v)[i := d])"
    have this': "proc_values ?h' this = Some ?v'"
      by (simp add: set_children_def)
    have same: "\<forall>j \<in> set js. children ?v' ! j = children v ! j"
    proof
      fix j assume "j \<in> set js"
      with inotin have "i \<noteq> j" by auto
      then show "children ?v' ! j = children v ! j" by simp
    qed
    have chains': "\<forall>j \<in> set js. \<exists>n d. identityChain ?h' (children ?v' ! j) n d"
    proof
      fix j assume j: "j \<in> set js"
      with Cons.prems obtain m e where "identityChain h (children v ! j) m e" by auto
      from identityChain_set_children [OF Cons.prems(1) i d this]
      obtain n' where "identityChain ?h' (children v ! j) n' e" ..
      with same j show "\<exists>n d. identityChain ?h' (children ?v' ! j) n d" by auto
    qed
    from Cons.prems have bounds': "\<forall>j \<in> set js. j < length (children ?v')" by simp
    from Cons.IH [OF this' dist bounds' chains', of True]
    obtain cs' where cs': "performSubstitution_loop ?h' this js True =
            Some (Inr (set_children ?h' this ?v' cs', True))"
      "length cs' = length (children ?v')"
      "\<forall>j \<in> set js. \<exists>n. identityChain ?h' (children ?v' ! j) n (cs' ! j)"
      "\<forall>j. j \<notin> set js \<longrightarrow> cs' ! j = children ?v' ! j"
      by auto
    have run: "performSubstitution_loop h this (i # js) res =
                 Some (Inr (set_children h this v cs', True))"
      using Cons.prems(1) i cv idn True fold cs'(1)
      by (simp add: child_def set_children_twice set_children_def [symmetric])
    have targets: "\<forall>j \<in> set (i # js). \<exists>n. identityChain h (children v ! j) n (cs' ! j)"
    proof
      fix j assume "j \<in> set (i # js)"
      then consider "j = i" | "j \<in> set js" by auto
      then show "\<exists>n. identityChain h (children v ! j) n (cs' ! j)"
      proof cases
        case 1
        with cs'(4) inotin i have "cs' ! j = d" by simp
        with d 1 show ?thesis by auto
      next
        case 2
        with Cons.prems obtain m e where e: "identityChain h (children v ! j) m e" by auto
        from identityChain_set_children [OF Cons.prems(1) i d e]
        obtain n' where "identityChain ?h' (children v ! j) n' e" ..
        moreover from cs'(3) 2 same obtain k where
          "identityChain ?h' (children v ! j) k (cs' ! j)" by auto
        ultimately have "e = cs' ! j" by (auto dest: identityChain_unique)
        with e show ?thesis by auto
      qed
    qed
    have rest: "\<forall>j. j \<notin> set (i # js) \<longrightarrow> cs' ! j = children v ! j"
      using cs'(4) by auto
    from run cs'(2) targets rest True show ?thesis
      by (intro exI [of _ cs']) auto
  qed
qed

text \<open>
  C9. From a node that heads a chain of \<open>n\<close> Identity nodes ending at the node \<open>d\<close>,
  whose opcode is not Identity, the loop of \<^verbatim>\<open>foldIdentity\<close> returns \<open>d\<close> after \<open>n\<close>
  iterations. When every child of the node \<open>v\<close> at \<open>this\<close> heads such a chain,
  \<^verbatim>\<open>performSubstitution\<close> returns; it changes nothing but the child array of \<open>this\<close>;
  each child is then what \<^verbatim>\<open>foldIdentity\<close> gives for the child it replaces, the same
  node when that was no Identity and another node when it was; the result is true
  exactly when some child was an Identity; and afterwards no child of the node is an
  Identity.
\<close>

theorem foldIdentity_convergence:
  "(identityChain h a n d \<longrightarrow>
      foldIdentity_loop h a 0 = Some (Inr (d, n)) \<and> foldIdentity h a = Some (Inr d))
   \<and> (proc_values h this = Some v \<and> (\<forall>c \<in> set (children v). \<exists>n d. identityChain h c n d) \<longrightarrow>
       (\<exists>cs'. performSubstitution h this =
                Some (Inr (set_children h this v cs', \<exists>c \<in> set (children v). isIdentity h c))
          \<and> length cs' = length (children v)
          \<and> (\<forall>i < length (children v).
                foldIdentity h (children v ! i) = Some (Inr (cs' ! i))
                \<and> (\<not> isIdentity h (children v ! i) \<longrightarrow> cs' ! i = children v ! i)
                \<and> (isIdentity h (children v ! i) \<longrightarrow> cs' ! i \<noteq> children v ! i))
          \<and> (\<forall>c' \<in> set cs'. \<not> isIdentity (set_children h this v cs') c')))"
proof (intro conjI impI)
  assume "identityChain h a n d"
  then show "foldIdentity_loop h a 0 = Some (Inr (d, n))" "foldIdentity h a = Some (Inr d)"
    using foldIdentity_loop_chain [of h a n d 0] by (simp_all add: foldIdentity_chain)
next
  assume asm: "proc_values h this = Some v
    \<and> (\<forall>c \<in> set (children v). \<exists>n d. identityChain h c n d)"
  then have tv: "proc_values h this = Some v"
    and chains: "\<forall>j \<in> set [0 ..< length (children v)]. \<exists>n d. identityChain h (children v ! j) n d"
    by simp_all
  have "\<forall>j \<in> set [0 ..< length (children v)]. j < length (children v)" by simp
  from performSubstitution_loop_chains [OF tv distinct_upt this chains, of False]
  obtain cs' where run: "performSubstitution_loop h this [0 ..< length (children v)] False =
        Some (Inr (set_children h this v cs',
                   \<exists>j \<in> set [0 ..< length (children v)]. isIdentity h (children v ! j)))"
    and len: "length cs' = length (children v)"
    and tgt0: "\<forall>j \<in> set [0 ..< length (children v)].
                 \<exists>n. identityChain h (children v ! j) n (cs' ! j)"
    by auto
  from tgt0 have tgt: "\<exists>n. identityChain h (children v ! j) n (cs' ! j)"
    if "j < length (children v)" for j
    using that by simp
  have res: "(\<exists>j \<in> set [0 ..< length (children v)]. isIdentity h (children v ! j))
      = (\<exists>c \<in> set (children v). isIdentity h c)"
    by (force simp: in_set_conv_nth)
  have each: "foldIdentity h (children v ! i) = Some (Inr (cs' ! i))
                \<and> (\<not> isIdentity h (children v ! i) \<longrightarrow> cs' ! i = children v ! i)
                \<and> (isIdentity h (children v ! i) \<longrightarrow> cs' ! i \<noteq> children v ! i)"
    if "i < length (children v)" for i
  proof -
    from tgt [OF that] obtain n where n: "identityChain h (children v ! i) n (cs' ! i)" ..
    from identityChain_target [OF n] have "\<not> isIdentity h (cs' ! i)"
      by (auto simp: isIdentity_def)
    moreover have "cs' ! i = children v ! i" if "\<not> isIdentity h (children v ! i)"
      using n that by (simp add: identityChain_isIdentity identityChain_0)
    ultimately show ?thesis
      using n by (auto simp: foldIdentity_chain)
  qed
  have after: "\<not> isIdentity (set_children h this v cs') c'" if "c' \<in> set cs'" for c'
  proof -
    from that len obtain i where i: "i < length (children v)" "c' = cs' ! i"
      by (auto simp: in_set_conv_nth)
    from tgt [OF i(1)] i(2) obtain n where "identityChain h (children v ! i) n c'" by auto
    from identityChain_target [OF this] have "\<not> isIdentity h c'"
      by (auto simp: isIdentity_def)
    with tv show ?thesis
      by (simp add: isIdentity_set_children)
  qed
  from run res tv len each after
  show "\<exists>cs'. performSubstitution h this =
                Some (Inr (set_children h this v cs', \<exists>c \<in> set (children v). isIdentity h c))
          \<and> length cs' = length (children v)
          \<and> (\<forall>i < length (children v).
                foldIdentity h (children v ! i) = Some (Inr (cs' ! i))
                \<and> (\<not> isIdentity h (children v ! i) \<longrightarrow> cs' ! i = children v ! i)
                \<and> (isIdentity h (children v ! i) \<longrightarrow> cs' ! i \<noteq> children v ! i))
          \<and> (\<forall>c' \<in> set cs'. \<not> isIdentity (set_children h this v cs') c')"
    by (intro exI [of _ cs']) (simp add: performSubstitution_def)
qed

theorem foldIdentity_convergence_witness:
  "identityChain example_proc 2 (Suc (Suc 0)) 0
   \<and> foldIdentity_loop example_proc 2 0 = Some (Inr (0, Suc (Suc 0)))
   \<and> foldIdentity example_proc 2 = Some (Inr 0)
   \<and> performSubstitution example_proc 3 =
       Some (Inr (example_proc\<lparr>proc_values := example_values(3 \<mapsto>
                    \<lparr>m_index = 13, m_kind = Kind_of Add, m_type = Int32, m_origin = 7,
                     owner = Some 0, children = [0, 0], payload = NoPayload\<rparr>)\<rparr>, True))
   \<and> \<not> isIdentity example_proc 0"
proof -
  have c2: "identityChain example_proc 2 (Suc (Suc 0)) 0"
    and c0: "identityChain example_proc 0 0 0"
    by (simp_all add: identityChain.simps example_defs)
  have v: "proc_values example_proc 3 = Some
             \<lparr>m_index = 13, m_kind = Kind_of Add, m_type = Int32, m_origin = 7,
              owner = Some 0, children = [2, 0], payload = NoPayload\<rparr>"
    by (simp add: example_proc_def example_values_def)
  have chains: "\<forall>c \<in> set (children
             \<lparr>m_index = 13, m_kind = Kind_of Add, m_type = Int32, m_origin = 7,
              owner = Some 0, children = [2, 0], payload = NoPayload\<rparr>).
          \<exists>n d. identityChain example_proc c n d"
    using c2 c0 by auto
  note conv = foldIdentity_convergence [where h = example_proc and a = 2
      and n = "Suc (Suc 0)" and d = 0 and this = 3
      and v = "\<lparr>m_index = 13, m_kind = Kind_of Add, m_type = Int32, m_origin = 7,
              owner = Some 0, children = [2, 0], payload = NoPayload\<rparr>"]
  from conv c2 have fold: "foldIdentity_loop example_proc 2 0 = Some (Inr (0, Suc (Suc 0)))"
    "foldIdentity example_proc 2 = Some (Inr 0)"
    by simp_all
  from conv v chains have "\<exists>cs' r. performSubstitution example_proc 3 =
      Some (Inr (set_children example_proc 3
             \<lparr>m_index = 13, m_kind = Kind_of Add, m_type = Int32, m_origin = 7,
              owner = Some 0, children = [2, 0], payload = NoPayload\<rparr> cs', r))"
    by blast
  moreover have "performSubstitution example_proc 3 =
       Some (Inr (example_proc\<lparr>proc_values := example_values(3 \<mapsto>
                    \<lparr>m_index = 13, m_kind = Kind_of Add, m_type = Int32, m_origin = 7,
                     owner = Some 0, children = [0, 0], payload = NoPayload\<rparr>)\<rparr>, True))"
    by (simp add: performSubstitution_def foldIdentity_def foldIdentity_loop.simps
        example_defs upt_rec)
  moreover have "\<not> isIdentity example_proc 0"
    by (simp add: isIdentity_def example_defs)
  ultimately show ?thesis
    using c2 fold by simp
qed


end
